theory Spec2Isabelle
  imports Complex_Main
begin

section \<open>Python values, exceptions and logging shared by both modules\<close>

text \<open>
  Exceptions are values: a call that raises returns \<open>Inl e\<close>, together with the world
  as the exception left it.  The two modules log through the same five helper functions
  (\<open>LOGINFO\<close>, \<open>LOGERROR\<close>, ...); the log is kept as the list of emitted lines.
\<close>

datatype pyerror =
    HTTPError
  | Timeout
  | RequestException
  | OSError
  | IndexError
  | KeyError
  | TypeError
  | AttributeError
  | ValueError
  | OverflowError
  | UnpicklingError
  | EOFError
  | LibraryError

datatype loglevel = DBUG | INFO | ERR | WRN | EXC

type_synonym logline = "loglevel \<times> string"

section \<open>services/skyview.py\<close>

subsection \<open>Data\<close>

text \<open>
  A frame is the pixel array of the primary HDU, kept as its list of rows; pixels are
  never computed on by \<open>get_stamp\<close> itself, only by the convolution routine of the
  library.  A header is the list of FITS cards.
\<close>

type_synonym frame = "real list list"
type_synonym kernel = "real list list"

text \<open>
  What a caller passes as \<open>convolvewith\<close>: a kernel object of
  \<open>astropy.convolution\<close>, a nested list, or an array.
\<close>

datatype kernel_arg =
    KernelObject kernel
  | KernelList kernel
  | KernelArray kernel
type_synonym header = "(string \<times> string) list"
type_synonym formparams = "(string \<times> string list) list"

datatype http_outcome =
    HttpTimeout
  | HttpFailed
  | HttpResponse nat string

text \<open>
  What \<open>get_stamp\<close> takes from its libraries and from the outside world: the float
  formatting of \<open>%\<close>, \<open>hashlib.sha256(...).hexdigest()\<close>, \<open>os.path.expanduser\<close>,
  \<open>requests.get\<close> (the server answers as a function of the request; the response
  carries its status code and its body), \<open>gzip\<close> compression, the FITS reader of
  \<open>pyfits.open\<close> on the bytes of a cached file, and \<open>astropy.convolution.convolve\<close>.
\<close>

record skyview_env =
  fmt4f :: "real \<Rightarrow> string"
  str_float :: "real \<Rightarrow> string"
  sha256_hexdigest :: "string \<Rightarrow> string"
  expanduser :: "string \<Rightarrow> string"
  requests_get :: "string \<Rightarrow> formparams \<Rightarrow> real \<Rightarrow> http_outcome"
  gzip_compress :: "string \<Rightarrow> string"
  pyfits_open :: "string \<Rightarrow> (header \<times> frame) option"
  aconv_convolve :: "frame \<Rightarrow> kernel_arg \<Rightarrow> pyerror + frame"

text \<open>
  The world \<open>get_stamp\<close> acts on: the files and directories on disk, which paths can be
  opened for writing, the module-level list \<open>SKYVIEW_PARAMS['survey']\<close> (the shallow
  \<open>.copy()\<close> of the dict shares it, so the assignment to its first element persists),
  the requests sent so far, and the log.
\<close>

record skyview_world =
  files :: "string \<rightharpoonup> string"
  dirs :: "string list"
  writable :: "string \<Rightarrow> bool"
  SKYVIEW_PARAMS_survey :: "string list"
  requests_sent :: "(string \<times> formparams) list"
  loglines :: "logline list"

datatype stamp_result =
    RNone
  | RFrame frame
  | RFrameHeader frame header

subsection \<open>Constants\<close>

definition SKYVIEW_URL :: string where
  "SKYVIEW_URL = ''https://skyview.gsfc.nasa.gov/current/cgi/runquery.pl''"

definition FITS_BASEURL :: string where
  "FITS_BASEURL = ''https://skyview.gsfc.nasa.gov''"

definition SKYVIEW_PARAMS_survey_initial :: "string list" where
  "SKYVIEW_PARAMS_survey_initial = [''DSS2 Red'', ''_skip_'', ''_skip_'', ''_skip_'']"

text \<open>\<open>SKYVIEW_PARAMS.copy()\<close> with the three entries \<open>get_stamp\<close> assigns.\<close>

definition make_formparams :: "string list \<Rightarrow> string list \<Rightarrow> string list \<Rightarrow> formparams" where
  "make_formparams formposition surveylist formscaling =
     [(''CatalogIDs'', [''on'']),
      (''Deedger'', [''_skip_'']),
      (''Position'', formposition),
      (''Sampler'', [''_skip_'']),
      (''coordinates'', [''J2000'']),
      (''ebins'', [''null'']),
      (''float'', [''on'']),
      (''grid'', [''_skip_'']),
      (''gridlabels'', [''1'']),
      (''lut'', [''colortables/b-w-linear.bin'']),
      (''pixels'', [''300'']),
      (''projection'', [''Tan'']),
      (''resolver'', [''SIMBAD-NED'']),
      (''scaling'', formscaling),
      (''survey'', surveylist)]"

subsection \<open>The pattern \<open>FITS_REGEX\<close>\<close>

text \<open>
  \<open>(tempspace\/fits\/skv\d{8,20}\.fits)\<close>: the literal prefix, between 8 and 20
  decimal digits, the literal suffix.  A digit can never start the suffix, so the greedy
  repetition with backtracking matches exactly when the whole run of digits after the
  prefix has between 8 and 20 elements and the suffix follows it.  \<open>regex_match_at\<close>
  gives the length of the match at the start of the text, \<open>FITS_REGEX_findall\<close> scans
  from left to right for non-overlapping matches as \<open>findall\<close> does.  The text is a
  string of 8-bit characters, among which the decimal digits are \<open>0\<close> to \<open>9\<close>.
\<close>

definition is_digit :: "char \<Rightarrow> bool" where
  "is_digit c = (c \<in> set ''0123456789'')"

fun startswith :: "string \<Rightarrow> string \<Rightarrow> bool" where
  "startswith s [] = True"
| "startswith [] (p # ps) = False"
| "startswith (c # cs) (p # ps) = (c = p \<and> startswith cs ps)"

definition regex_match_at :: "string \<Rightarrow> nat option" where
  "regex_match_at s =
     (if startswith s ''tempspace/fits/skv'' then
        (let r = drop 18 s; n = length (takeWhile is_digit r)
         in if 8 \<le> n \<and> n \<le> 20 \<and> startswith (drop n r) ''.fits''
            then Some (18 + n + 5) else None)
      else None)"

function FITS_REGEX_findall :: "string \<Rightarrow> string list" where
  "FITS_REGEX_findall [] = []"
| "FITS_REGEX_findall (c # cs) =
     (case regex_match_at (c # cs) of
        None \<Rightarrow> FITS_REGEX_findall cs
      | Some m \<Rightarrow> take m (c # cs) # FITS_REGEX_findall (drop (m - 1) cs))"
  by pat_completeness auto
termination
  by (relation "measure length") auto

subsection \<open>Path, URL and logging helpers\<close>

definition os_path_join :: "string \<Rightarrow> string \<Rightarrow> string" where
  "os_path_join a b =
     (if startswith b ''/'' then b
      else if a = [] \<or> last a = CHR ''/'' then a @ b
      else a @ ''/'' @ b)"

text \<open>
  \<open>urljoin\<close> of a base without a path and a relative path without dot segments, which
  is what every match of \<open>FITS_REGEX\<close> is.
\<close>

definition urljoin :: "string \<Rightarrow> string \<Rightarrow> string" where
  "urljoin base rel = base @ ''/'' @ rel"

definition path_exists :: "skyview_world \<Rightarrow> string \<Rightarrow> bool" where
  "path_exists w p = (files w p \<noteq> None \<or> p \<in> set (dirs w))"

definition makedirs :: "skyview_world \<Rightarrow> string \<Rightarrow> skyview_world" where
  "makedirs w p = w\<lparr>dirs := dirs w @ [p]\<rparr>"

definition sky_log :: "loglevel \<Rightarrow> string \<Rightarrow> skyview_world \<Rightarrow> skyview_world" where
  "sky_log lvl message w = w\<lparr>loglines := loglines w @ [(lvl, message)]\<rparr>"

text \<open>\<open>repr\<close> of a string without quotes or escapes, and of a one-element list of it.\<close>

definition repr_str :: "string \<Rightarrow> string" where
  "repr_str s = [CHR 0x27] @ s @ [CHR 0x27]"

definition repr_list1 :: "string \<Rightarrow> string" where
  "repr_list1 s = ''['' @ repr_str s @ '']''"

subsection \<open>\<open>np.flipud\<close>\<close>

definition flipud :: "frame \<Rightarrow> frame" where
  "flipud frm = rev frm"

subsection \<open>\<open>get_stamp\<close>\<close>

text \<open>
  The model follows the statements of the function body.  (In the file the docstring
  of \<open>get_stamp\<close> starts at column 0, which the Python parser rejects as an
  indentation error until the docstring is indented with the body; the statements
  themselves are indented as a body.)

  The body of \<open>for fitsurl in fitsurls\<close>: every URL is requested in turn and every
  response is written, gzip-compressed, to the one cache path, each write replacing the
  file the previous one left.  An exception leaves the loop with the world as it is.
\<close>

fun download_fitsurls ::
  "skyview_env \<Rightarrow> string \<Rightarrow> real \<Rightarrow> bool \<Rightarrow> string list \<Rightarrow> skyview_world
     \<Rightarrow> (pyerror + unit) \<times> skyview_world" where
  "download_fitsurls env cachefname timeout verbose [] w = (Inr (), w)"
| "download_fitsurls env cachefname timeout verbose (fitsurl # rest) w =
     (let fullfitsurl = urljoin FITS_BASEURL fitsurl;
          w1 = (if verbose then sky_log INFO (''getting '' @ fullfitsurl) w else w);
          w2 = w1\<lparr>requests_sent := requests_sent w1 @ [(fullfitsurl, [])]\<rparr>
      in case requests_get env fullfitsurl [] timeout of
           HttpTimeout \<Rightarrow> (Inl Timeout, w2)
         | HttpFailed \<Rightarrow> (Inl RequestException, w2)
         | HttpResponse status content \<Rightarrow>
             (if writable w2 cachefname then
                download_fitsurls env cachefname timeout verbose rest
                  (w2\<lparr>files := (files w2)(cachefname \<mapsto> gzip_compress env content)\<rparr>)
              else (Inl OSError, w2)))"

text \<open>
  The statements inside \<open>try\<close>: the query, \<open>raise_for_status\<close>, the scan of the
  response text and the downloads.  \<open>Inr False\<close> is the early \<open>return None\<close> of the
  branch without URLs, \<open>Inr True\<close> is falling out of the \<open>try\<close>.
\<close>

definition fetch_try ::
  "skyview_env \<Rightarrow> string \<Rightarrow> formparams \<Rightarrow> string \<Rightarrow> string \<Rightarrow> string \<Rightarrow> real \<Rightarrow> bool
     \<Rightarrow> skyview_world \<Rightarrow> (pyerror + bool) \<times> skyview_world" where
  "fetch_try env cachefname params formposition0 survey scaling timeout verbose w =
     (let w1 = (if verbose
                then sky_log INFO (''submitting stamp request for '' @ formposition0 @ '', ''
                                     @ survey @ '', '' @ scaling) w
                else w);
          w2 = w1\<lparr>requests_sent := requests_sent w1 @ [(SKYVIEW_URL, params)]\<rparr>
      in case requests_get env SKYVIEW_URL params timeout of
           HttpTimeout \<Rightarrow> (Inl Timeout, w2)
         | HttpFailed \<Rightarrow> (Inl RequestException, w2)
         | HttpResponse status resp \<Rightarrow>
             (if 400 \<le> status \<and> status < 600 then (Inl HTTPError, w2)
              else
                (let fitsurls = FITS_REGEX_findall resp
                 in if fitsurls \<noteq> [] then
                      (case download_fitsurls env cachefname timeout verbose fitsurls w2 of
                         (Inl e, w3) \<Rightarrow> (Inl e, w3)
                       | (Inr u, w3) \<Rightarrow> (Inr True, w3))
                    else
                      (Inr False,
                       sky_log ERR (''no FITS URLs found in query results for ''
                                      @ repr_list1 formposition0) w2))))"

text \<open>The three \<open>except\<close> clauses: each logs and raises the exception again.\<close>

definition fetch_except :: "skyview_env \<Rightarrow> string \<Rightarrow> real \<Rightarrow> pyerror \<Rightarrow> skyview_world \<Rightarrow> skyview_world" where
  "fetch_except env formposition0 timeout e w =
     (if e = HTTPError then
        sky_log EXC (''SkyView stamp request for coordinates ''
                       @ repr_list1 formposition0 @ '' failed'') w
      else if e = Timeout then
        sky_log ERR (''SkyView stamp request for coordinates ''
                       @ repr_list1 formposition0 @ '' did not complete within ''
                       @ str_float env timeout @ '' seconds'') w
      else
        sky_log EXC (''SkyView stamp request for coordinates ''
                       @ repr_list1 formposition0 @ '' failed'') w)"

definition cache_filename :: "skyview_env \<Rightarrow> string \<Rightarrow> real \<Rightarrow> real \<Rightarrow> string \<Rightarrow> string \<Rightarrow> string" where
  "cache_filename env cachedir ra decl survey scaling =
     (let formposition0 = fmt4f env ra @ '', '' @ fmt4f env decl;
          cachedir1 = (if CHR ''~'' \<in> set cachedir then expanduser env cachedir else cachedir);
          cachekey = formposition0 @ ''-'' @ survey @ ''-'' @ scaling
      in os_path_join cachedir1 (sha256_hexdigest env cachekey @ ''.fits.gz''))"

text \<open>
  \<open>if convolvewith:\<close> for a value that is not \<open>None\<close>: a kernel object is truthy,
  a list is truthy unless it is empty, an array with more than one element has no truth
  value.
\<close>

definition kernel_truth :: "kernel_arg \<Rightarrow> pyerror + bool" where
  "kernel_truth k =
     (case k of
        KernelObject a \<Rightarrow> Inr True
      | KernelList a \<Rightarrow> Inr (a \<noteq> [])
      | KernelArray a \<Rightarrow>
          (if length (concat a) = 0 then Inr False
           else if length (concat a) = 1 then Inr (concat a \<noteq> [0])
           else Inl ValueError))"

text \<open>
  The statements after the fetch: open the cached file, flip, convolve, return.  The
  convolved array is bound to \<open>convolved\<close> and both \<open>return\<close> statements of that
  branch return \<open>frame\<close>.
\<close>

definition open_and_process ::
  "skyview_env \<Rightarrow> string \<Rightarrow> string \<Rightarrow> string \<Rightarrow> bool \<Rightarrow> kernel_arg option \<Rightarrow> bool \<Rightarrow> bool
     \<Rightarrow> skyview_world \<Rightarrow> (pyerror + stamp_result) \<times> skyview_world" where
  "open_and_process env cachefname formposition0 provenance flip convolvewith savewcsheader verbose w =
     (case files w cachefname of
        None \<Rightarrow> (Inl OSError, w)
      | Some bytes \<Rightarrow>
          (case pyfits_open env bytes of
             None \<Rightarrow> (Inl OSError, w)
           | Some (hdr, frame0) \<Rightarrow>
               (let frame = (if flip then flipud frame0 else frame0);
                    w1 = (if verbose
                          then sky_log INFO (''fetched stamp successfully for ''
                                               @ repr_str formposition0 @ '', provenance: ''
                                               @ provenance) w
                          else w);
                    plain = (if savewcsheader then (Inr (RFrameHeader frame hdr), w1)
                             else (Inr (RFrame frame), w1))
                in case convolvewith of
                     None \<Rightarrow> plain
                   | Some k \<Rightarrow>
                       (case kernel_truth k of
                          Inl e \<Rightarrow> (Inl e, w1)
                        | Inr False \<Rightarrow> plain
                        | Inr True \<Rightarrow>
                            (case aconv_convolve env frame k of
                               Inl e \<Rightarrow> (Inl e, w1)
                             | Inr convolved \<Rightarrow>
                                 (if savewcsheader then (Inr (RFrameHeader frame hdr), w1)
                                  else (Inr (RFrame frame), w1)))))))"

definition get_stamp ::
  "skyview_env \<Rightarrow> skyview_world \<Rightarrow> real \<Rightarrow> real \<Rightarrow> string \<Rightarrow> string \<Rightarrow> bool \<Rightarrow> kernel_arg option
     \<Rightarrow> bool \<Rightarrow> string \<Rightarrow> real \<Rightarrow> bool \<Rightarrow> bool \<Rightarrow> (pyerror + stamp_result) \<times> skyview_world" where
  "get_stamp env w ra decl survey scaling flip convolvewith forcefetch cachedir timeout
       savewcsheader verbose =
     (let formposition0 = fmt4f env ra @ '', '' @ fmt4f env decl;
          formposition = [formposition0];
          formscaling = [scaling]
      in if SKYVIEW_PARAMS_survey w = [] then (Inl IndexError, w)
         else
           (let w1 = w\<lparr>SKYVIEW_PARAMS_survey := (SKYVIEW_PARAMS_survey w)[0 := survey]\<rparr>;
                params = make_formparams formposition (SKYVIEW_PARAMS_survey w1) formscaling;
                cachedir1 = (if CHR ''~'' \<in> set cachedir then expanduser env cachedir
                             else cachedir);
                w2 = (if \<not> path_exists w1 cachedir1 then makedirs w1 cachedir1 else w1);
                cachefname = cache_filename env cachedir ra decl survey scaling
            in if forcefetch \<or> \<not> path_exists w2 cachefname then
                 (case fetch_try env cachefname params formposition0 survey scaling timeout
                         verbose w2 of
                    (Inl e, w3) \<Rightarrow> (Inl e, fetch_except env formposition0 timeout e w3)
                  | (Inr False, w3) \<Rightarrow> (Inr RNone, w3)
                  | (Inr True, w3) \<Rightarrow>
                      open_and_process env cachefname formposition0 ''new download'' flip
                        convolvewith savewcsheader verbose w3)
               else
                 open_and_process env cachefname formposition0 ''cache'' flip
                   convolvewith savewcsheader verbose w2))"

section \<open>varclass/rfclass.py\<close>

subsection \<open>Data\<close>

text \<open>
  A Python list or one-dimensional array of this module holds strings (object
  identifiers, feature names) or numbers (feature values): a \<open>cell\<close>.  \<open>pyval\<close> is
  the universe of the values the module's dicts hold.  A dict is a map from its string
  keys; a fitted classifier is known by its two entry points \<open>predict\<close> and
  \<open>predict_proba\<close> on a feature matrix.
\<close>

datatype cell = SCell string | NCell real

datatype pyval =
    VNone
  | VBool bool
  | VInt int
  | VFloat real
  | VStr string
  | VList "cell list"
  | VArray "cell list"
  | VMatrix "cell list list"
  | VLabels "int list"
  | VClassifier "cell list list \<Rightarrow> pyerror + int list"
                "cell list list \<Rightarrow> pyerror + cell list list"
  | VDict "string \<Rightarrow> pyval option"

type_synonym pydict = "string \<rightharpoonup> pyval"

text \<open>
  A varfeatures pickle, as the feature extraction writes it: the object identifier and,
  under every magnitude column, the features by name.  The identifier is kept apart
  from the magnitude columns, so no magnitude column is the key \<open>'objectid'\<close>, and
  identifiers are strings that a numpy string array gives back unchanged.  A label dict
  maps an object identifier to a \<open>bool\<close> or to an integer class code.
\<close>

record varfeatures =
  vf_objectid :: string
  vf_magcols :: "string \<rightharpoonup> (string \<rightharpoonup> real)"

datatype labelvalue = LBool bool | LInt int

text \<open>
  What a path holds: a varfeatures pickle, the pickle of another value, a file that is
  not a pickle, an empty file, or a directory.
\<close>

datatype rf_file =
    VarfPickle varfeatures
  | Pickle pyval
  | NotAPickle
  | EmptyFile
  | Directory

text \<open>
  The world of this module: the paths on disk, what \<open>glob.glob\<close> answers for a
  pattern, which paths can be opened for writing, the text numpy gives a number that it
  stores in a string array, and the log.
\<close>

record rf_world =
  rf_files :: "string \<rightharpoonup> rf_file"
  glob_results :: "string \<Rightarrow> string list"
  rf_writable :: "string \<Rightarrow> bool"
  np_str_float :: "real \<Rightarrow> string"
  rf_loglines :: "logline list"

text \<open>
  The calls into scikit-learn that \<open>train_rf_classifier\<close> makes, in the order it makes
  them.  \<open>cv_results\<close> lists, for every candidate of the search, its rank and the
  texts of its mean score, its deviation and its parameters.
\<close>

record cv_search =
  cv_results :: "(nat \<times> string \<times> string \<times> string) list"
  best_estimator :: pyval
  best_score :: pyval
  best_params :: pyval

record sklearn =
  train_test_split :: "pyval \<Rightarrow> pyval \<Rightarrow> real \<Rightarrow> pyerror + (pyval \<times> pyval \<times> pyval \<times> pyval)"
  randomized_search_fit ::
    "int \<Rightarrow> int \<Rightarrow> int \<Rightarrow> string \<Rightarrow> pyval \<Rightarrow> pyval \<Rightarrow> pyerror + cv_search"
  recall_score :: "pyval \<Rightarrow> pyval \<Rightarrow> pyerror + pyval"
  precision_score :: "pyval \<Rightarrow> pyval \<Rightarrow> pyerror + pyval"
  f1_score :: "pyval \<Rightarrow> pyval \<Rightarrow> pyerror + pyval"
  confusion_matrix :: "pyval \<Rightarrow> pyval \<Rightarrow> pyerror + pyval"

subsection \<open>Constants and helpers\<close>

definition NONPERIODIC_FEATURES_TO_COLLECT :: "cell list" where
  "NONPERIODIC_FEATURES_TO_COLLECT = map SCell
     [''stetsonj'', ''stetsonk'', ''amplitude'', ''magnitude_ratio'', ''linear_fit_slope'',
      ''eta_normal'', ''percentile_difference_flux_percentile'', ''mad'', ''skew'',
      ''kurtosis'', ''mag_iqr'', ''beyond1std'', ''grcolor'', ''gicolor'', ''ricolor'',
      ''bvcolor'', ''jhcolor'', ''jkcolor'', ''hkcolor'', ''gkcolor'', ''propermotion'']"

definition rf_log :: "loglevel \<Rightarrow> string \<Rightarrow> rf_world \<Rightarrow> rf_world" where
  "rf_log lvl message w = w\<lparr>rf_loglines := rf_loglines w @ [(lvl, message)]\<rparr>"

text \<open>\<open>xs[:m]\<close> for an integer \<open>m\<close>: a negative bound counts from the end.\<close>

definition slice_to :: "'a list \<Rightarrow> int \<Rightarrow> 'a list" where
  "slice_to xs m = (if 0 \<le> m then take (nat m) xs else take (length xs - nat (- m)) xs)"

text \<open>Subscript and \<open>append\<close> on the entries of a dict.\<close>

definition subscript :: "pydict \<Rightarrow> string \<Rightarrow> pyerror + pyval" where
  "subscript d k = (case d k of None \<Rightarrow> Inl KeyError | Some v \<Rightarrow> Inr v)"

definition get_list :: "pydict \<Rightarrow> string \<Rightarrow> pyerror + cell list" where
  "get_list d k =
     (case d k of
        None \<Rightarrow> Inl KeyError
      | Some (VList xs) \<Rightarrow> Inr xs
      | Some other \<Rightarrow> Inl AttributeError)"

text \<open>
  An array has one element type.  Where strings and numbers meet, in \<open>np.array\<close> of a
  list or in the concatenation of arrays, numpy 1.x takes the string type and stores
  every number as its text.
\<close>

definition is_str :: "cell \<Rightarrow> bool" where
  "is_str c = (case c of SCell s \<Rightarrow> True | NCell x \<Rightarrow> False)"

definition cell_str :: "(real \<Rightarrow> string) \<Rightarrow> cell \<Rightarrow> cell" where
  "cell_str fmt c = (case c of SCell s \<Rightarrow> SCell s | NCell x \<Rightarrow> SCell (fmt x))"

definition common_type :: "(real \<Rightarrow> string) \<Rightarrow> cell list \<Rightarrow> cell list" where
  "common_type fmt xs = (if \<exists>c \<in> set xs. is_str c then map (cell_str fmt) xs else xs)"

text \<open>\<open>np.array\<close> of a list is the array of its elements, of an array the array.\<close>

definition np_array :: "(real \<Rightarrow> string) \<Rightarrow> pyval \<Rightarrow> pyval" where
  "np_array fmt v = (case v of VList xs \<Rightarrow> VArray (common_type fmt xs) | other \<Rightarrow> other)"

text \<open>
  \<open>np.column_stack\<close> of one-dimensional arrays: an empty sequence and arrays of
  different lengths raise \<open>ValueError\<close>; otherwise array \<open>j\<close> is column \<open>j\<close>.
\<close>

fun array_cells :: "pyval list \<Rightarrow> pyerror + cell list list" where
  "array_cells [] = Inr []"
| "array_cells (VArray xs # rest) =
     (case array_cells rest of Inl e \<Rightarrow> Inl e | Inr cols \<Rightarrow> Inr (xs # cols))"
| "array_cells (other # rest) = Inl ValueError"

definition column_stack :: "(real \<Rightarrow> string) \<Rightarrow> pyval list \<Rightarrow> pyerror + pyval" where
  "column_stack fmt arrays =
     (case array_cells arrays of
        Inl e \<Rightarrow> Inl e
      | Inr [] \<Rightarrow> Inl ValueError
      | Inr (col # cols) \<Rightarrow>
          (if \<forall>c \<in> set cols. length c = length col
           then Inr (VMatrix (map (\<lambda>i. map (\<lambda>c. c ! i)
                                         (if \<exists>c \<in> set (concat (col # cols)). is_str c
                                          then map (map (cell_str fmt)) (col # cols)
                                          else col # cols))
                                [0..<length col]))
           else Inl ValueError))"

text \<open>\<open>os.path.dirname\<close>.\<close>

definition rstrip_slash :: "string \<Rightarrow> string" where
  "rstrip_slash s = rev (dropWhile (\<lambda>c. c = CHR ''/'') (rev s))"

definition os_path_dirname :: "string \<Rightarrow> string" where
  "os_path_dirname p =
     (let head = rev (dropWhile (\<lambda>c. c \<noteq> CHR ''/'') (rev p))
      in if head \<noteq> [] \<and> \<not> (\<forall>c \<in> set head. c = CHR ''/'') then rstrip_slash head else head)"

subsection \<open>\<open>collect_features\<close>\<close>

definition featurestoget :: "cell list option \<Rightarrow> cell list" where
  "featurestoget featurestouse =
     (case featurestouse of
        None \<Rightarrow> NONPERIODIC_FEATURES_TO_COLLECT
      | Some fs \<Rightarrow> (if fs \<noteq> [] \<and> 0 < length fs then fs else NONPERIODIC_FEATURES_TO_COLLECT))"

text \<open>
  The loop \<open>for feature in featurestoget\<close> for one pickle.  A feature name that is not a
  string is never a key of \<open>thisfeatures\<close>.
\<close>

fun collect_one :: "(string \<rightharpoonup> real) \<Rightarrow> cell list \<Rightarrow> pydict \<Rightarrow> pyerror + pydict" where
  "collect_one thisfeatures [] feature_dict = Inr feature_dict"
| "collect_one thisfeatures (NCell x # rest) feature_dict =
     (case get_list feature_dict ''availablefeatures'' of
        Inl e \<Rightarrow> Inl e
      | Inr available \<Rightarrow> collect_one thisfeatures rest feature_dict)"
| "collect_one thisfeatures (SCell feature # rest) feature_dict =
     (case get_list feature_dict ''availablefeatures'' of
        Inl e \<Rightarrow> Inl e
      | Inr available \<Rightarrow>
          (let d1 = (if SCell feature \<notin> set available \<and> thisfeatures feature \<noteq> None
                     then (feature_dict(''availablefeatures'' \<mapsto> VList (available @ [SCell feature])))
                            (feature \<mapsto> VList [])
                     else feature_dict)
           in case thisfeatures feature of
                None \<Rightarrow> collect_one thisfeatures rest d1
              | Some val \<Rightarrow>
                  (case get_list d1 feature of
                     Inl e \<Rightarrow> Inl e
                   | Inr column \<Rightarrow>
                       collect_one thisfeatures rest
                         (d1(feature \<mapsto> VList (column @ [NCell val]))))))"

text \<open>
  The loop \<open>for pkl in listiterator\<close>.  A pickle that is not a varfeatures record
  fails at \<open>varf['objectid']\<close>: the dicts this module itself writes have no such
  entry, an array takes no string index, and the other values take no subscript.
\<close>

fun collect_all ::
  "rf_world \<Rightarrow> string \<Rightarrow> cell list option \<Rightarrow> string list \<Rightarrow> pydict \<Rightarrow> pyerror + pydict" where
  "collect_all w magcol featurestouse [] feature_dict = Inr feature_dict"
| "collect_all w magcol featurestouse (pkl # rest) feature_dict =
     (case rf_files w pkl of
        None \<Rightarrow> Inl OSError
      | Some Directory \<Rightarrow> Inl OSError
      | Some NotAPickle \<Rightarrow> Inl UnpicklingError
      | Some EmptyFile \<Rightarrow> Inl EOFError
      | Some (Pickle (VDict d)) \<Rightarrow> Inl KeyError
      | Some (Pickle (VArray xs)) \<Rightarrow> Inl IndexError
      | Some (Pickle (VMatrix rows)) \<Rightarrow> Inl IndexError
      | Some (Pickle (VLabels ls)) \<Rightarrow> Inl IndexError
      | Some (Pickle other) \<Rightarrow> Inl TypeError
      | Some (VarfPickle varf) \<Rightarrow>
          (case get_list feature_dict ''objectids'' of
             Inl e \<Rightarrow> Inl e
           | Inr objectids \<Rightarrow>
               (let d1 = (if SCell (vf_objectid varf) \<notin> set objectids
                          then feature_dict(''objectids'' \<mapsto>
                                 VList (objectids @ [SCell (vf_objectid varf)]))
                          else feature_dict)
                in case vf_magcols varf magcol of
                     None \<Rightarrow> Inl KeyError
                   | Some thisfeatures \<Rightarrow>
                       (case collect_one thisfeatures (featurestoget featurestouse) d1 of
                          Inl e \<Rightarrow> Inl e
                        | Inr d2 \<Rightarrow> collect_all w magcol featurestouse rest d2))))"

text \<open>
  \<open>for feat in feature_dict['availablefeatures']\<close>: the list object is read once and
  every entry it names is replaced by its array.
\<close>

fun to_arrays :: "(real \<Rightarrow> string) \<Rightarrow> cell list \<Rightarrow> pydict \<Rightarrow> pyerror + pydict" where
  "to_arrays fmt [] feature_dict = Inr feature_dict"
| "to_arrays fmt (NCell x # rest) feature_dict = Inl KeyError"
| "to_arrays fmt (SCell feat # rest) feature_dict =
     (case feature_dict feat of
        None \<Rightarrow> Inl KeyError
      | Some v \<Rightarrow> to_arrays fmt rest (feature_dict(feat \<mapsto> np_array fmt v)))"

fun columns_of :: "pydict \<Rightarrow> cell list \<Rightarrow> pyerror + pyval list" where
  "columns_of feature_dict [] = Inr []"
| "columns_of feature_dict (NCell x # rest) = Inl KeyError"
| "columns_of feature_dict (SCell feat # rest) =
     (case feature_dict feat of
        None \<Rightarrow> Inl KeyError
      | Some v \<Rightarrow>
          (case columns_of feature_dict rest of Inl e \<Rightarrow> Inl e | Inr vs \<Rightarrow> Inr (v # vs)))"

definition iterate :: "pyval \<Rightarrow> pyerror + cell list" where
  "iterate v = (case v of VList xs \<Rightarrow> Inr xs | VArray xs \<Rightarrow> Inr xs | other \<Rightarrow> Inl TypeError)"

text \<open>
  The label of one object: \<open>labelarray\<close> starts as zeros of type \<open>int64\<close>; an integer
  outside that type cannot be stored.
\<close>

definition truthy :: "labelvalue \<Rightarrow> bool" where
  "truthy v = (case v of LBool b \<Rightarrow> b | LInt i \<Rightarrow> i \<noteq> 0)"

definition to_int64 :: "labelvalue \<Rightarrow> pyerror + int" where
  "to_int64 v =
     (case v of
        LBool b \<Rightarrow> Inr (if b then 1 else 0)
      | LInt i \<Rightarrow> (if - (2 ^ 63) \<le> i \<and> i < 2 ^ 63 then Inr i else Inl OverflowError))"

definition label_entry :: "(string \<rightharpoonup> labelvalue) \<Rightarrow> string \<Rightarrow> cell \<Rightarrow> pyerror + int" where
  "label_entry labeldict labeltype objectid =
     (case objectid of
        NCell x \<Rightarrow> Inr 0
      | SCell s \<Rightarrow>
          (case labeldict s of
             None \<Rightarrow> Inr 0
           | Some v \<Rightarrow>
               (if labeltype = ''binary'' then (if truthy v then Inr 1 else Inr 0)
                else if labeltype = ''classes'' then to_int64 v
                else Inr 0)))"

fun label_loop :: "(string \<rightharpoonup> labelvalue) \<Rightarrow> string \<Rightarrow> cell list \<Rightarrow> pyerror + int list" where
  "label_loop labeldict labeltype [] = Inr []"
| "label_loop labeldict labeltype (objectid # rest) =
     (case label_entry labeldict labeltype objectid of
        Inl e \<Rightarrow> Inl e
      | Inr l \<Rightarrow>
          (case label_loop labeldict labeltype rest of
             Inl e \<Rightarrow> Inl e
           | Inr ls \<Rightarrow> Inr (l # ls)))"

text \<open>
  The statements between the loop over the pickles and the label array: the arrays, the
  stacked feature matrix.
\<close>

definition stack_features :: "(real \<Rightarrow> string) \<Rightarrow> pydict \<Rightarrow> pyerror + pydict" where
  "stack_features fmt feature_dict =
     (case subscript feature_dict ''availablefeatures'' of
        Inl e \<Rightarrow> Inl e
      | Inr available \<Rightarrow>
     (case iterate available of
        Inl e \<Rightarrow> Inl e
      | Inr feats \<Rightarrow>
     (case to_arrays fmt feats feature_dict of
        Inl e \<Rightarrow> Inl e
      | Inr d1 \<Rightarrow>
     (case subscript d1 ''objectids'' of
        Inl e \<Rightarrow> Inl e
      | Inr objectids \<Rightarrow>
     (let d2 = d1(''objectids'' \<mapsto> np_array fmt objectids)
      in case subscript d2 ''availablefeatures'' of
        Inl e \<Rightarrow> Inl e
      | Inr available2 \<Rightarrow>
     (case iterate available2 of
        Inl e \<Rightarrow> Inl e
      | Inr feats2 \<Rightarrow>
     (case columns_of d2 feats2 of
        Inl e \<Rightarrow> Inl e
      | Inr arrays \<Rightarrow>
     (case column_stack fmt arrays of
        Inl e \<Rightarrow> Inl e
      | Inr feature_array \<Rightarrow> Inr (d2(''features_array'' \<mapsto> feature_array))))))))))"

text \<open>\<open>if isinstance(labeldict, dict)\<close>: the label array, one entry per object identifier.\<close>

definition add_labels :: "(string \<rightharpoonup> labelvalue) option \<Rightarrow> string \<Rightarrow> pydict \<Rightarrow> pyerror + pydict" where
  "add_labels labeldict labeltype feature_dict =
     (case labeldict of
        None \<Rightarrow> Inr feature_dict
      | Some ld \<Rightarrow>
          (case subscript feature_dict ''objectids'' of
             Inl e \<Rightarrow> Inl e
           | Inr objectids \<Rightarrow>
               (case iterate objectids of
                  Inl e \<Rightarrow> Inl e
                | Inr ids \<Rightarrow>
                    (case label_loop ld labeltype ids of
                       Inl e \<Rightarrow> Inl e
                     | Inr labelarray \<Rightarrow>
                         Inr (feature_dict(''labels_array'' \<mapsto> VLabels labelarray))))))"

definition collect_kwargs ::
  "string \<Rightarrow> cell list option \<Rightarrow> int option \<Rightarrow> string \<Rightarrow> pyval" where
  "collect_kwargs pklglob featurestouse maxobjects labeltype =
     VDict [''pklglob'' \<mapsto> VStr pklglob,
            ''featurestouse'' \<mapsto> (case featurestouse of None \<Rightarrow> VNone | Some fs \<Rightarrow> VList fs),
            ''maxobjects'' \<mapsto> (case maxobjects of None \<Rightarrow> VNone | Some m \<Rightarrow> VInt m),
            ''labeltype'' \<mapsto> VStr labeltype]"

text \<open>
  \<open>if maxobjects: pklist = pklist[:maxobjects]\<close>: \<open>None\<close> and \<open>0\<close> are both falsy.
\<close>

definition limit_pklist :: "int option \<Rightarrow> string list \<Rightarrow> string list" where
  "limit_pklist maxobjects pklist =
     (case maxobjects of
        None \<Rightarrow> pklist
      | Some m \<Rightarrow> (if m \<noteq> 0 then slice_to pklist m else pklist))"

definition collect_features ::
  "rf_world \<Rightarrow> string \<Rightarrow> string \<Rightarrow> string \<Rightarrow> string \<Rightarrow> cell list option \<Rightarrow> int option
     \<Rightarrow> (string \<rightharpoonup> labelvalue) option \<Rightarrow> string \<Rightarrow> (pyerror + pydict) \<times> rf_world" where
  "collect_features w featuresdir magcol outfile pklglob featurestouse maxobjects labeldict
       labeltype =
     (let pklist = limit_pklist maxobjects (glob_results w (os_path_join featuresdir pklglob));
          feature_dict = [''objectids'' \<mapsto> VList [], ''magcol'' \<mapsto> VStr magcol,
                          ''availablefeatures'' \<mapsto> VList []];
          w1 = rf_log INFO (''collecting features for magcol: '' @ magcol) w
      in case collect_all w1 magcol featurestouse pklist feature_dict of
           Inl e \<Rightarrow> (Inl e, w1)
         | Inr d1 \<Rightarrow>
        (case stack_features (np_str_float w1) d1 of
           Inl e \<Rightarrow> (Inl e, w1)
         | Inr d2 \<Rightarrow>
        (case add_labels labeldict labeltype d2 of
           Inl e \<Rightarrow> (Inl e, w1)
         | Inr d3 \<Rightarrow>
        (let d4 = d3(''kwargs'' \<mapsto> collect_kwargs pklglob featurestouse maxobjects labeltype)
         in if rf_writable w1 outfile
            then (Inr d4, w1\<lparr>rf_files := (rf_files w1)(outfile \<mapsto> Pickle (VDict d4))\<rparr>)
            else (Inl OSError, w1)))))"

subsection \<open>Resolving a dict-or-path argument\<close>

text \<open>A varfeatures pickle, read as the plain dict it is.\<close>

definition varf_dict :: "varfeatures \<Rightarrow> pyval" where
  "varf_dict varf =
     VDict (\<lambda>k. if k = ''objectid'' then Some (VStr (vf_objectid varf))
                 else map_option (\<lambda>fs. VDict (\<lambda>f. map_option VFloat (fs f)))
                        (vf_magcols varf k))"

text \<open>\<open>with open(path,'rb') as infd: pickle.load(infd)\<close>.\<close>

definition pickle_load :: "rf_world \<Rightarrow> string \<Rightarrow> pyerror + pyval" where
  "pickle_load w path =
     (case rf_files w path of
        None \<Rightarrow> Inl OSError
      | Some Directory \<Rightarrow> Inl OSError
      | Some NotAPickle \<Rightarrow> Inl UnpicklingError
      | Some EmptyFile \<Rightarrow> Inl EOFError
      | Some (Pickle v) \<Rightarrow> Inr v
      | Some (VarfPickle varf) \<Rightarrow> Inr (varf_dict varf))"

text \<open>
  The \<open>if\<close>/\<open>elif\<close>/\<open>else\<close> that opens \<open>train_rf_classifier\<close>,
  \<open>apply_rf_classifier\<close> and \<open>plot_training_results\<close>: a string naming an existing path
  is unpickled, a dict is taken as it is; \<open>Inr None\<close> is the \<open>else\<close> branch.
\<close>

definition resolve_arg :: "rf_world \<Rightarrow> pyval \<Rightarrow> pyerror + pyval option" where
  "resolve_arg w arg =
     (case arg of
        VStr path \<Rightarrow>
          (if rf_files w path \<noteq> None
           then (case pickle_load w path of Inl e \<Rightarrow> Inl e | Inr v \<Rightarrow> Inr (Some v))
           else Inr None)
      | VDict d \<Rightarrow> Inr (Some (VDict d))
      | other \<Rightarrow> Inr None)"

text \<open>\<open>key in v\<close> and \<open>v[key]\<close> for a string key, by the type of \<open>v\<close>.\<close>

fun is_substring :: "string \<Rightarrow> string \<Rightarrow> bool" where
  "is_substring k [] = (k = [])"
| "is_substring k (c # cs) = (startswith (c # cs) k \<or> is_substring k cs)"

definition contains_key :: "pyval \<Rightarrow> string \<Rightarrow> pyerror + bool" where
  "contains_key v k =
     (case v of
        VDict d \<Rightarrow> Inr (d k \<noteq> None)
      | VList xs \<Rightarrow> Inr (SCell k \<in> set xs)
      | VArray xs \<Rightarrow> Inr (SCell k \<in> set xs)
      | VMatrix rows \<Rightarrow> Inr (\<exists>row \<in> set rows. SCell k \<in> set row)
      | VLabels ls \<Rightarrow> Inr False
      | VStr s \<Rightarrow> Inr (is_substring k s)
      | other \<Rightarrow> Inl TypeError)"

definition subscript_val :: "pyval \<Rightarrow> string \<Rightarrow> pyerror + pyval" where
  "subscript_val v k =
     (case v of
        VDict d \<Rightarrow> subscript d k
      | VArray xs \<Rightarrow> Inl IndexError
      | VMatrix rows \<Rightarrow> Inl IndexError
      | VLabels ls \<Rightarrow> Inl IndexError
      | other \<Rightarrow> Inl TypeError)"

subsection \<open>\<open>apply_rf_classifier\<close>\<close>

text \<open>
  \<open>labeltype\<close> is read from the bundle and not used again: the call of
  \<open>collect_features\<close> passes \<open>pklglob\<close>, \<open>featurestouse\<close> and \<open>maxobjects\<close>, so
  \<open>labeldict\<close> and \<open>labeltype\<close> take their defaults \<open>None\<close> and \<open>'binary'\<close>.

  The arguments of \<open>collect_features\<close> as the bundle holds them.  A bundle written by
  \<open>train_rf_classifier\<close> holds a list of feature names and two strings; an entry of
  another type is rejected with \<open>TypeError\<close>.
\<close>

definition as_str :: "pyval \<Rightarrow> pyerror + string" where
  "as_str v = (case v of VStr s \<Rightarrow> Inr s | other \<Rightarrow> Inl TypeError)"

definition as_featurelist :: "pyval \<Rightarrow> pyerror + cell list option" where
  "as_featurelist v =
     (case v of VNone \<Rightarrow> Inr None | VList xs \<Rightarrow> Inr (Some xs) | other \<Rightarrow> Inl TypeError)"

text \<open>
  The statements from \<open>bestclf = clfdict['best_classifier']\<close> on: the two predictions,
  the result dict, its pickle.
\<close>

definition predict_and_write ::
  "rf_world \<Rightarrow> pyval \<Rightarrow> pydict \<Rightarrow> string \<Rightarrow> string \<Rightarrow> (pyerror + pyval) \<times> rf_world" where
  "predict_and_write w clfdict features featfile outpickle =
     (case subscript_val clfdict ''best_classifier'' of
        Inl e \<Rightarrow> (Inl e, w)
      | Inr (VClassifier predict predict_proba) \<Rightarrow>
          (case subscript features ''features_array'' of
             Inl e \<Rightarrow> (Inl e, w)
           | Inr (VMatrix rows) \<Rightarrow>
               (case predict rows of
                  Inl e \<Rightarrow> (Inl e, w)
                | Inr predicted_labels \<Rightarrow>
                    (case predict_proba rows of
                       Inl e \<Rightarrow> (Inl e, w)
                     | Inr predicted_label_probs \<Rightarrow>
                         (let outdict = VDict
                                [''features'' \<mapsto> VDict features,
                                 ''featfile'' \<mapsto> VStr featfile,
                                 ''classifier'' \<mapsto> clfdict,
                                 ''predicted_labels'' \<mapsto> VLabels predicted_labels,
                                 ''predicted_label_probs'' \<mapsto> VMatrix predicted_label_probs]
                          in if rf_writable w outpickle
                             then (Inr outdict,
                                   w\<lparr>rf_files := (rf_files w)(outpickle \<mapsto> Pickle outdict)\<rparr>)
                             else (Inl OSError, w))))
           | Inr other \<Rightarrow> (Inl ValueError, w))
      | Inr other \<Rightarrow> (Inl AttributeError, w))"

definition apply_rf_classifier ::
  "rf_world \<Rightarrow> pyval \<Rightarrow> string \<Rightarrow> string \<Rightarrow> int option \<Rightarrow> (pyerror + pyval) \<times> rf_world" where
  "apply_rf_classifier w classifier varfeaturesdir outpickle maxobjects =
     (case resolve_arg w classifier of
        Inl e \<Rightarrow> (Inl e, w)
      | Inr None \<Rightarrow> (Inr VNone, rf_log ERR ''can't figure out the input classifier arg'' w)
      | Inr (Some clfdict) \<Rightarrow>
     (case contains_key clfdict ''feature_names'' of
        Inl e \<Rightarrow> (Inl e, w)
      | Inr False \<Rightarrow>
          (Inr VNone,
           rf_log ERR (''feature_names not present in classifier input, ''
                         @ ''can't figure out which ones to extract from ''
                         @ ''varfeature pickles in '' @ varfeaturesdir) w)
      | Inr True \<Rightarrow>
     (case subscript_val clfdict ''feature_names'' of
        Inl e \<Rightarrow> (Inl e, w)
      | Inr featurestouse \<Rightarrow>
     (case subscript_val clfdict ''collect_kwargs'' of
        Inl e \<Rightarrow> (Inl e, w)
      | Inr collect_kwargs1 \<Rightarrow>
     (case subscript_val collect_kwargs1 ''labeltype'' of
        Inl e \<Rightarrow> (Inl e, w)
      | Inr labeltype \<Rightarrow>
     (case subscript_val collect_kwargs1 ''pklglob'' of
        Inl e \<Rightarrow> (Inl e, w)
      | Inr pklglob \<Rightarrow>
     (case subscript_val clfdict ''magcol'' of
        Inl e \<Rightarrow> (Inl e, w)
      | Inr magcol \<Rightarrow>
     (let featfile = os_path_join (os_path_dirname outpickle) ''actual-collected-features.pkl''
      in case as_str magcol of
        Inl e \<Rightarrow> (Inl e, w)
      | Inr magcol_s \<Rightarrow>
     (case as_str pklglob of
        Inl e \<Rightarrow> (Inl e, w)
      | Inr pklglob_s \<Rightarrow>
     (case as_featurelist featurestouse of
        Inl e \<Rightarrow> (Inl e, w)
      | Inr featurelist \<Rightarrow>
     (case collect_features w varfeaturesdir magcol_s featfile pklglob_s featurelist maxobjects
             None ''binary'' of
        (Inl e, w1) \<Rightarrow> (Inl e, w1)
      | (Inr features, w1) \<Rightarrow>
          predict_and_write w1 clfdict features featfile outpickle)))))))))))"

subsection \<open>\<open>train_rf_classifier\<close>\<close>

text \<open>
  \<open>gridsearch_report\<close>: for the ranks 1 to \<open>n_top\<close>, three lines for every candidate of
  that rank.
\<close>

definition report_candidate :: "string \<Rightarrow> (string \<times> string \<times> string) \<Rightarrow> rf_world \<Rightarrow> rf_world" where
  "report_candidate rank cand w =
     (case cand of (mean_score, std_score, params) \<Rightarrow>
        rf_log INFO (''Parameters: '' @ params)
          (rf_log INFO (''Mean validation score: '' @ mean_score @ '' (std: '' @ std_score @ '')'')
             (rf_log INFO (''Model with rank: '' @ rank) w)))"

definition gridsearch_report :: "(nat \<times> string \<times> string \<times> string) list \<Rightarrow> rf_world \<Rightarrow> rf_world" where
  "gridsearch_report results w =
     foldl (\<lambda>w1 (i, rank).
              foldl (\<lambda>w2 cand. report_candidate rank cand w2) w1
                (map snd (filter (\<lambda>r. fst r = i) results)))
       w [(1, ''1''), (2, ''2''), (3, ''3'')]"

text \<open>
  The statements of \<open>train_rf_classifier\<close> after its argument is resolved.
  \<open>classifier_to_pickle\<close> is \<open>None\<close> or a path; the empty path is falsy as well.
\<close>

definition train_resolved ::
  "sklearn \<Rightarrow> rf_world \<Rightarrow> pyval \<Rightarrow> real \<Rightarrow> int \<Rightarrow> int \<Rightarrow> string \<Rightarrow> string option \<Rightarrow> int
     \<Rightarrow> (pyerror + pyval) \<times> rf_world" where
  "train_resolved sk w fdict test_fraction n_crossval_iterations n_kfolds
       crossval_scoring_metric classifier_to_pickle nworkers =
     (case subscript_val fdict ''features_array'' of
        Inl e \<Rightarrow> (Inl e, w)
      | Inr tfeatures \<Rightarrow>
     (case subscript_val fdict ''labels_array'' of
        Inl e \<Rightarrow> (Inl e, w)
      | Inr tlabels \<Rightarrow>
     (case subscript_val fdict ''availablefeatures'' of
        Inl e \<Rightarrow> (Inl e, w)
      | Inr tfeaturenames \<Rightarrow>
     (case subscript_val fdict ''magcol'' of
        Inl e \<Rightarrow> (Inl e, w)
      | Inr tmagcol \<Rightarrow>
     (case subscript_val fdict ''objectids'' of
        Inl e \<Rightarrow> (Inl e, w)
      | Inr tobjectids \<Rightarrow>
     (case train_test_split sk tfeatures tlabels test_fraction of
        Inl e \<Rightarrow> (Inl e, w)
      | Inr (training_features, testing_features, training_labels, testing_labels) \<Rightarrow>
     (let w1 = rf_log INFO ''running grid-search CV to optimize RF hyperparameters...'' w
      in case randomized_search_fit sk nworkers n_crossval_iterations n_kfolds
                crossval_scoring_metric training_features training_labels of
        Inl e \<Rightarrow> (Inl e, w1)
      | Inr cvsearch_classifiers \<Rightarrow>
     (let w2 = gridsearch_report (cv_results cvsearch_classifiers) w1;
          bestclf = best_estimator cvsearch_classifiers;
          bestclf_score = best_score cvsearch_classifiers;
          bestclf_hyperparams = best_params cvsearch_classifiers
      in case (case bestclf of
                 VClassifier predict predict_proba \<Rightarrow>
                   (case testing_features of
                      VMatrix rows \<Rightarrow>
                        (case predict rows of Inl e \<Rightarrow> Inl e | Inr ls \<Rightarrow> Inr (VLabels ls))
                    | other \<Rightarrow> Inl ValueError)
               | other \<Rightarrow> Inl AttributeError) of
        Inl e \<Rightarrow> (Inl e, w2)
      | Inr test_predicted_labels \<Rightarrow>
     (case recall_score sk testing_labels test_predicted_labels of
        Inl e \<Rightarrow> (Inl e, w2)
      | Inr recscore \<Rightarrow>
     (case precision_score sk testing_labels test_predicted_labels of
        Inl e \<Rightarrow> (Inl e, w2)
      | Inr precscore \<Rightarrow>
     (case f1_score sk testing_labels test_predicted_labels of
        Inl e \<Rightarrow> (Inl e, w2)
      | Inr f1score \<Rightarrow>
     (case confusion_matrix sk testing_labels test_predicted_labels of
        Inl e \<Rightarrow> (Inl e, w2)
      | Inr confmatrix \<Rightarrow>
     (case subscript_val fdict ''kwargs'' of
        Inl e \<Rightarrow> (Inl e, w2)
      | Inr fdict_kwargs \<Rightarrow>
     (let outdict = VDict
            [''features'' \<mapsto> tfeatures,
             ''labels'' \<mapsto> tlabels,
             ''feature_names'' \<mapsto> tfeaturenames,
             ''magcol'' \<mapsto> tmagcol,
             ''objectids'' \<mapsto> tobjectids,
             ''kwargs'' \<mapsto> VDict
                [''test_fraction'' \<mapsto> VFloat test_fraction,
                 ''n_crossval_iterations'' \<mapsto> VInt n_crossval_iterations,
                 ''n_kfolds'' \<mapsto> VInt n_kfolds,
                 ''crossval_scoring_metric'' \<mapsto> VStr crossval_scoring_metric,
                 ''nworkers'' \<mapsto> VInt nworkers],
             ''collect_kwargs'' \<mapsto> fdict_kwargs,
             ''testing_features'' \<mapsto> testing_features,
             ''testing_labels'' \<mapsto> testing_labels,
             ''training_features'' \<mapsto> training_features,
             ''training_labels'' \<mapsto> training_labels,
             ''best_classifier'' \<mapsto> bestclf,
             ''best_score'' \<mapsto> bestclf_score,
             ''best_hyperparams'' \<mapsto> bestclf_hyperparams,
             ''best_recall'' \<mapsto> recscore,
             ''best_precision'' \<mapsto> precscore,
             ''best_f1'' \<mapsto> f1score,
             ''best_confmatrix'' \<mapsto> confmatrix]
      in case classifier_to_pickle of
           None \<Rightarrow> (Inr outdict, w2)
         | Some path \<Rightarrow>
             (if path = [] then (Inr outdict, w2)
              else if rf_writable w2 path
              then (Inr outdict, w2\<lparr>rf_files := (rf_files w2)(path \<mapsto> Pickle outdict)\<rparr>)
              else (Inl OSError, w2))))))))))))))))"

definition train_rf_classifier ::
  "sklearn \<Rightarrow> rf_world \<Rightarrow> pyval \<Rightarrow> real \<Rightarrow> int \<Rightarrow> int \<Rightarrow> string \<Rightarrow> string option \<Rightarrow> int
     \<Rightarrow> (pyerror + pyval) \<times> rf_world" where
  "train_rf_classifier sk w collected_features test_fraction n_crossval_iterations n_kfolds
       crossval_scoring_metric classifier_to_pickle nworkers =
     (case resolve_arg w collected_features of
        Inl e \<Rightarrow> (Inl e, w)
      | Inr None \<Rightarrow>
          (Inr VNone, rf_log ERR ''can't figure out the input collected_features arg'' w)
      | Inr (Some fdict) \<Rightarrow>
          train_resolved sk w fdict test_fraction n_crossval_iterations n_kfolds
            crossval_scoring_metric classifier_to_pickle nworkers)"

section \<open>Concrete inputs\<close>

subsection \<open>A SkyView server, a disk and a kernel\<close>

text \<open>
  The server answers one query with a page naming two result files and serves the two
  files with different contents.  The FITS reader knows the two files.  The convolution
  is the library's for the normalised 1x3 box kernel with zero fill: every pixel becomes
  the mean of itself and its two horizontal neighbours.
\<close>

fun box3_row :: "real \<Rightarrow> real list \<Rightarrow> real list" where
  "box3_row prev [] = []"
| "box3_row prev [x] = [(prev + x + 0) / 3]"
| "box3_row prev (x # y # r) = (prev + x + y) / 3 # box3_row x (y # r)"

definition demo_page :: string where
  "demo_page =
     ''<a href=tempspace/fits/skv11111111.fits>1</a> <a href=tempspace/fits/skv22222222.fits>2</a>''"

definition demo_server :: "string \<Rightarrow> formparams \<Rightarrow> real \<Rightarrow> http_outcome" where
  "demo_server url params timeout =
     (if url = SKYVIEW_URL then HttpResponse 200 demo_page
      else if url = ''https://skyview.gsfc.nasa.gov/tempspace/fits/skv11111111.fits'' then
        HttpResponse 200 ''A''
      else if url = ''https://skyview.gsfc.nasa.gov/tempspace/fits/skv22222222.fits'' then
        HttpResponse 200 ''B''
      else HttpResponse 404 ''not found'')"

definition demo_env :: skyview_env where
  "demo_env =
     \<lparr>fmt4f = (\<lambda>x. if x = 0 then ''0.0000'' else ''10.5000''),
      str_float = (\<lambda>x. ''10.0''),
      sha256_hexdigest = (\<lambda>s. ''5f''),
      expanduser = (\<lambda>p. ''/home/user'' @ tl p),
      requests_get = demo_server,
      gzip_compress = (\<lambda>s. ''gz:'' @ s),
      pyfits_open = (\<lambda>b. if b = ''gz:A'' then Some ([], [[0, 3, 0], [0, 0, 0]])
                          else if b = ''gz:B'' then Some ([], [[6, 0, 0], [0, 0, 3]])
                          else None),
      aconv_convolve = (\<lambda>f k. if k = KernelObject [[1, 1, 1]] then Inr (map (box3_row 0) f)
                               else Inl LibraryError)\<rparr>"

definition demo_world :: "(string \<rightharpoonup> string) \<Rightarrow> skyview_world" where
  "demo_world fs =
     \<lparr>files = fs, dirs = [''/cache''], writable = (\<lambda>p. True),
      SKYVIEW_PARAMS_survey = SKYVIEW_PARAMS_survey_initial,
      requests_sent = [], loglines = []\<rparr>"

subsection \<open>A feature directory, a label dict and a classifier bundle\<close>

text \<open>
  Two varfeatures pickles of two objects, both with the features \<open>stetsonj\<close> and
  \<open>mad\<close> under the magnitude column \<open>aep_000\<close>; a second pickle of the first object;
  two pickles whose features are named like entries of the collection dict; a file that
  is not a pickle, an empty file and the directory \<open>/feat\<close> itself.  The glob
  matches the two pickles in \<open>/feat\<close>, the two pickles of the first object, the two
  pickles in \<open>/odd\<close>, and nothing elsewhere.
\<close>

definition demo_varf :: "string \<Rightarrow> real \<Rightarrow> real \<Rightarrow> varfeatures" where
  "demo_varf objectid j m =
     \<lparr>vf_objectid = objectid,
      vf_magcols = [''aep_000'' \<mapsto> [''stetsonj'' \<mapsto> j, ''mad'' \<mapsto> m]]\<rparr>"

definition odd_varf :: "string \<Rightarrow> real \<Rightarrow> real \<Rightarrow> varfeatures" where
  "odd_varf objectid x y =
     \<lparr>vf_objectid = objectid,
      vf_magcols = [''aep_000'' \<mapsto> [''objectids'' \<mapsto> x, ''availablefeatures'' \<mapsto> y]]\<rparr>"

definition demo_disk :: rf_world where
  "demo_disk =
     \<lparr>rf_files = [''/feat/varfeatures-1.pkl'' \<mapsto> VarfPickle (demo_varf ''HAT-1'' 1 2),
                  ''/feat/varfeatures-2.pkl'' \<mapsto> VarfPickle (demo_varf ''HAT-2'' 3 4),
                  ''/feat/again-1.pkl'' \<mapsto> VarfPickle (demo_varf ''HAT-1'' 5 6),
                  ''/odd/varfeatures-1.pkl'' \<mapsto> VarfPickle (odd_varf ''HAT-1'' 7 8),
                  ''/odd/varfeatures-2.pkl'' \<mapsto> VarfPickle (odd_varf ''HAT-2'' 9 10),
                  ''/junk.pkl'' \<mapsto> NotAPickle,
                  ''/empty.pkl'' \<mapsto> EmptyFile,
                  ''/feat'' \<mapsto> Directory],
      glob_results =
        (\<lambda>pattern.
           if pattern = ''/feat/varfeatures-*.pkl''
           then [''/feat/varfeatures-1.pkl'', ''/feat/varfeatures-2.pkl'']
           else if pattern = ''/feat/*-1.pkl''
           then [''/feat/varfeatures-1.pkl'', ''/feat/again-1.pkl'']
           else if pattern = ''/odd/varfeatures-*.pkl''
           then [''/odd/varfeatures-1.pkl'', ''/odd/varfeatures-2.pkl'']
           else []),
      rf_writable = (\<lambda>path. True),
      np_str_float = (\<lambda>x. if x = 7 then ''7.0'' else if x = 9 then ''9.0'' else ''0.0''),
      rf_loglines = []\<rparr>"

definition demo_labeldict :: "string \<rightharpoonup> labelvalue" where
  "demo_labeldict = [''HAT-1'' \<mapsto> LBool True]"

definition demo_classdict :: "string \<rightharpoonup> labelvalue" where
  "demo_classdict = [''HAT-1'' \<mapsto> LInt 3, ''HAT-2'' \<mapsto> LInt 5]"

text \<open>
  A bundle as \<open>train_rf_classifier\<close> writes it for a collection made with
  \<open>labeltype='classes'\<close>, reduced to the entries \<open>apply_rf_classifier\<close> reads.
\<close>

definition demo_bundle :: pyval where
  "demo_bundle =
     VDict [''feature_names'' \<mapsto> VList [SCell ''stetsonj'', SCell ''mad''],
            ''collect_kwargs'' \<mapsto>
               collect_kwargs ''varfeatures-*.pkl'' (Some [SCell ''stetsonj'', SCell ''mad''])
                 None ''classes'',
            ''magcol'' \<mapsto> VStr ''aep_000'',
            ''best_classifier'' \<mapsto>
               VClassifier (\<lambda>rows. Inr (map (\<lambda>row. 1) rows))
                           (\<lambda>rows. Inr (map (\<lambda>row. [NCell 0, NCell 1]) rows))]"

definition demo_sklearn :: sklearn where
  "demo_sklearn =
     \<lparr>train_test_split = (\<lambda>x y fraction. Inl LibraryError),
      randomized_search_fit = (\<lambda>nworkers n_iter n_splits scoring x y. Inl LibraryError),
      recall_score = (\<lambda>y_true y_pred. Inl LibraryError),
      precision_score = (\<lambda>y_true y_pred. Inl LibraryError),
      f1_score = (\<lambda>y_true y_pred. Inl LibraryError),
      confusion_matrix = (\<lambda>y_true y_pred. Inl LibraryError)\<rparr>"

text \<open>Reading a result: the entry under a path of keys, and the shape of a matrix.\<close>

fun dict_path :: "pyval \<Rightarrow> string list \<Rightarrow> pyval option" where
  "dict_path v [] = Some v"
| "dict_path (VDict d) (k # ks) = (case d k of None \<Rightarrow> None | Some v \<Rightarrow> dict_path v ks)"
| "dict_path other (k # ks) = None"

definition result_entry :: "(pyerror + pydict) \<times> rf_world \<Rightarrow> string \<Rightarrow> pyval option" where
  "result_entry res k = (case fst res of Inl e \<Rightarrow> None | Inr d \<Rightarrow> d k)"

subsection \<open>The claims' words\<close>

text \<open>
  The value of a feature of a record under a magnitude column, and the label the
  specification gives an object: in binary mode 1 for a truthy entry of the label map,
  in class mode the integer class code of the entry, and 0 for an object the map does
  not know.
\<close>

definition feature_value :: "varfeatures \<Rightarrow> string \<Rightarrow> string \<Rightarrow> real" where
  "feature_value r magcol f = the (the (vf_magcols r magcol) f)"

definition class_code :: "labelvalue \<Rightarrow> int" where
  "class_code v = (case v of LBool b \<Rightarrow> (if b then 1 else 0) | LInt i \<Rightarrow> i)"

definition expected_label :: "(string \<rightharpoonup> labelvalue) \<Rightarrow> string \<Rightarrow> cell \<Rightarrow> int" where
  "expected_label labeldict labeltype objectid =
     (case objectid of
        NCell x \<Rightarrow> 0
      | SCell s \<Rightarrow>
          (case labeldict s of
             None \<Rightarrow> 0
           | Some v \<Rightarrow>
               (if labeltype = ''binary'' then (if truthy v then 1 else 0)
                else if labeltype = ''classes'' then class_code v
                else 0)))"

text \<open>
  The arguments the specification accepts as resolvable at sight: a string that names an
  existing path, or a dict.
\<close>

definition names_existing_path :: "rf_world \<Rightarrow> pyval \<Rightarrow> bool" where
  "names_existing_path w arg = (case arg of VStr path \<Rightarrow> rf_files w path \<noteq> None | other \<Rightarrow> False)"

definition is_dict :: "pyval \<Rightarrow> bool" where
  "is_dict arg = (case arg of VDict d \<Rightarrow> True | other \<Rightarrow> False)"

text \<open>The shape of an array entry of a result, and the column a dict entry holds so far.\<close>

definition array_shape :: "pyval option \<Rightarrow> (nat \<times> nat) option" where
  "array_shape v =
     (case v of
        Some (VMatrix rows) \<Rightarrow> Some (length rows, (case rows of [] \<Rightarrow> 0 | row # others \<Rightarrow> length row))
      | Some (VArray xs) \<Rightarrow> Some (length xs, 1)
      | other \<Rightarrow> None)"

definition col_of :: "pydict \<Rightarrow> string \<Rightarrow> cell list" where
  "col_of d f = (case d f of Some (VList col) \<Rightarrow> col | other \<Rightarrow> [])"

section \<open>Properties of \<open>get_stamp\<close>\<close>

subsection \<open>What each stage leaves untouched\<close>

lemma sky_log_fields [simp]:
  "files (sky_log l m w) = files w"
  "dirs (sky_log l m w) = dirs w"
  "writable (sky_log l m w) = writable w"
  "SKYVIEW_PARAMS_survey (sky_log l m w) = SKYVIEW_PARAMS_survey w"
  "requests_sent (sky_log l m w) = requests_sent w"
  by (simp_all add: sky_log_def)

lemma download_fitsurls_preserves:
  "download_fitsurls env cachefname timeout verbose urls w = (res, w')
     \<Longrightarrow> dirs w' = dirs w \<and> SKYVIEW_PARAMS_survey w' = SKYVIEW_PARAMS_survey w"
proof (induction urls arbitrary: w)
  case Nil
  then show ?case by simp
next
  case (Cons u us)
  then show ?case
    by (auto simp: Let_def split: http_outcome.splits if_splits)
qed

lemma download_fitsurls_path_exists:
  "download_fitsurls env cachefname timeout verbose urls w = (res, w')
     \<Longrightarrow> path_exists w p \<Longrightarrow> path_exists w' p"
proof (induction urls arbitrary: w)
  case Nil
  then show ?case by simp
next
  case (Cons u us)
  then show ?case
    by (fastforce simp: Let_def path_exists_def split: http_outcome.splits if_splits)
qed

lemma fetch_try_preserves:
  "fetch_try env cachefname params fp survey scaling timeout verbose w = (res, w')
     \<Longrightarrow> dirs w' = dirs w \<and> SKYVIEW_PARAMS_survey w' = SKYVIEW_PARAMS_survey w"
  unfolding fetch_try_def
  by (auto simp: Let_def split: http_outcome.splits if_splits prod.splits sum.splits
           dest: download_fitsurls_preserves)

lemma fetch_try_path_exists:
  "fetch_try env cachefname params fp survey scaling timeout verbose w = (res, w')
     \<Longrightarrow> path_exists w p \<Longrightarrow> path_exists w' p"
  unfolding fetch_try_def
  by (auto simp: Let_def path_exists_def[of "sky_log _ _ _"]
                 path_exists_def[of "_\<lparr>requests_sent := _\<rparr>"]
           split: http_outcome.splits if_splits prod.splits sum.splits
           dest!: download_fitsurls_path_exists[where p = p])
     (auto simp: path_exists_def)

lemma open_and_process_preserves:
  "open_and_process env c fp prov flip conv hdr v w = (res, w')
     \<Longrightarrow> files w' = files w \<and> dirs w' = dirs w
         \<and> SKYVIEW_PARAMS_survey w' = SKYVIEW_PARAMS_survey w
         \<and> requests_sent w' = requests_sent w"
  unfolding open_and_process_def
  by (auto simp: Let_def split: option.splits prod.splits sum.splits bool.splits if_splits)

lemma open_and_process_again:
  assumes "open_and_process env c fp prov flip conv hdr v w = (Inr r, w')"
    and "files w2 c = files w c"
  shows "\<exists>w2'. open_and_process (env\<lparr>requests_get := g\<rparr>) c fp prov2 flip conv hdr v w2
                  = (Inr r, w2')"
  using assms unfolding open_and_process_def
  by (auto simp: Let_def split: option.splits prod.splits sum.splits bool.splits if_splits)

lemma open_and_process_reads_file:
  "open_and_process env c fp prov flip conv hdr v w = (Inr r, w') \<Longrightarrow> files w c \<noteq> None"
  unfolding open_and_process_def by (auto split: option.splits)

lemma cache_filename_net [simp]:
  "cache_filename (env\<lparr>requests_get := g\<rparr>) cachedir ra decl survey scaling
     = cache_filename env cachedir ra decl survey scaling"
  by (simp add: cache_filename_def)

lemma get_stamp_from_cache:
  assumes "SKYVIEW_PARAMS_survey w \<noteq> []"
    and same: "(SKYVIEW_PARAMS_survey w)[0 := survey] = SKYVIEW_PARAMS_survey w"
    and "path_exists w (if CHR ''~'' \<in> set cachedir then expanduser env cachedir else cachedir)"
    and "path_exists w (cache_filename env cachedir ra decl survey scaling)"
  shows "get_stamp env w ra decl survey scaling flip conv False cachedir timeout hdr verbose
           = open_and_process env (cache_filename env cachedir ra decl survey scaling)
               (fmt4f env ra @ '', '' @ fmt4f env decl) ''cache'' flip conv hdr verbose w"
proof -
  have "w\<lparr>SKYVIEW_PARAMS_survey := (SKYVIEW_PARAMS_survey w)[0 := survey]\<rparr> = w"
    by (simp add: same)
  then show ?thesis
    using assms by (simp add: get_stamp_def Let_def)
qed


lemma findall_demo_page:
  "FITS_REGEX_findall demo_page
     = [''tempspace/fits/skv11111111.fits'', ''tempspace/fits/skv22222222.fits'']"
  by (simp add: demo_page_def regex_match_at_def is_digit_def)

lemmas demo_defs =
  demo_env_def demo_world_def demo_server_def cache_filename_def os_path_join_def
  path_exists_def makedirs_def SKYVIEW_PARAMS_survey_initial_def SKYVIEW_URL_def
  FITS_BASEURL_def urljoin_def

subsection \<open>The flip\<close>

text \<open>
  C9.  The vertical flip \<open>get_stamp\<close> applies (\<open>np.flipud\<close>, the reversal of the row
  order) is an involution: applied twice to any frame it gives the frame back.
\<close>

theorem flipud_involution: "flipud (flipud frm) = frm"
  by (simp add: flipud_def)

subsection \<open>The convolution\<close>

text \<open>
  C1.  The docstring promises the stamp convolved with the kernel.  On a cached frame
  whose convolution with the box kernel differs from it, the call with the kernel
  supplied returns the frame as it was read, not the convolved frame: the result of the
  convolution is bound to a variable that no \<open>return\<close> statement uses.
\<close>

theorem get_stamp_returns_unconvolved_frame:
  "fst (get_stamp demo_env (demo_world [''/cache/5f.fits.gz'' \<mapsto> ''gz:A''])
          0 0 ''DSS2 Red'' ''Linear'' False (Some (KernelObject [[1, 1, 1]])) False ''/cache'' 10
          False False)
     = Inr (RFrame [[0, 3, 0], [0, 0, 0]])
   \<and> aconv_convolve demo_env [[0, 3, 0], [0, 0, 0]] (KernelObject [[1, 1, 1]])
     = Inr [[1, 1, 1], [0, 0, 0]]"
  by (simp add: get_stamp_def demo_defs open_and_process_def kernel_truth_def)

text \<open>
  The same for every input: whenever the convolution itself does not raise, supplying a
  kernel changes nothing in what the call returns.
\<close>

lemma open_and_process_ignores_kernel:
  assumes "kernel_truth k = Inr t"
    and "t \<longrightarrow> (\<exists>convolved. aconv_convolve env (if flip then flipud frame0 else frame0) k
                              = Inr convolved)"
    and "files w c = Some bytes" and "pyfits_open env bytes = Some (h, frame0)"
  shows "open_and_process env c fp prov flip (Some k) hdr v w
           = open_and_process env c fp prov flip None hdr v w"
  using assms by (cases t) (auto simp: open_and_process_def Let_def)

text \<open>
  An empty list as kernel is falsy and the stamp is returned without a convolution; an
  array as kernel has no truth value and the call raises.
\<close>

lemma get_stamp_kernel_truth_values:
  "fst (get_stamp demo_env (demo_world [''/cache/5f.fits.gz'' \<mapsto> ''gz:A''])
          0 0 ''DSS2 Red'' ''Linear'' False (Some (KernelList [])) False ''/cache'' 10 False False)
     = Inr (RFrame [[0, 3, 0], [0, 0, 0]])
   \<and> fst (get_stamp demo_env (demo_world [''/cache/5f.fits.gz'' \<mapsto> ''gz:A''])
          0 0 ''DSS2 Red'' ''Linear'' False (Some (KernelArray [[1, 1, 1]])) False ''/cache'' 10
          False False)
     = Inl ValueError"
  by (simp add: get_stamp_def demo_defs open_and_process_def kernel_truth_def)

subsection \<open>The downloads\<close>




subsection \<open>The second call\<close>

text \<open>
  C7.  After a call that returned a stamp, a call with the same position, survey,
  scaling and processing options and \<open>forcefetch=False\<close> returns the same stamp,
  whatever the server would answer now, and sends no request: the list of requests sent
  and the files on disk are as the first call left them.
\<close>

theorem get_stamp_second_call_from_cache:
  assumes first: "get_stamp env w ra decl survey scaling flip conv ff cachedir timeout hdr
                    verbose = (Inr r, w')"
    and some: "r \<noteq> RNone"
  shows "\<exists>w''. get_stamp (env\<lparr>requests_get := g\<rparr>) w' ra decl survey scaling flip conv False
                  cachedir timeout hdr verbose = (Inr r, w'')
               \<and> requests_sent w'' = requests_sent w'
               \<and> files w'' = files w'"
proof -
  define fp where "fp = fmt4f env ra @ '', '' @ fmt4f env decl"
  define cd1 where
    "cd1 = (if CHR ''~'' \<in> set cachedir then expanduser env cachedir else cachedir)"
  define c where "c = cache_filename env cachedir ra decl survey scaling"
  define w1 where
    "w1 = w\<lparr>SKYVIEW_PARAMS_survey := (SKYVIEW_PARAMS_survey w)[0 := survey]\<rparr>"
  define w2 where "w2 = (if \<not> path_exists w1 cd1 then makedirs w1 cd1 else w1)"
  define params where "params = make_formparams [fp] (SKYVIEW_PARAMS_survey w1) [scaling]"
  have ne: "SKYVIEW_PARAMS_survey w \<noteq> []"
    using first by (auto simp: get_stamp_def)
  have w2_dir: "path_exists w2 cd1"
    by (auto simp: w2_def makedirs_def path_exists_def)
  have w2_survey: "SKYVIEW_PARAMS_survey w2 = (SKYVIEW_PARAMS_survey w)[0 := survey]"
    by (simp add: w2_def w1_def makedirs_def)
  have unfolded:
    "get_stamp env w ra decl survey scaling flip conv ff cachedir timeout hdr verbose
      = (if ff \<or> \<not> path_exists w2 c then
           (case fetch_try env c params fp survey scaling timeout verbose w2 of
              (Inl e, w3) \<Rightarrow> (Inl e, fetch_except env fp timeout e w3)
            | (Inr False, w3) \<Rightarrow> (Inr RNone, w3)
            | (Inr True, w3) \<Rightarrow>
                open_and_process env c fp ''new download'' flip conv hdr verbose w3)
         else open_and_process env c fp ''cache'' flip conv hdr verbose w2)"
    unfolding get_stamp_def Let_def fp_def cd1_def c_def w1_def w2_def params_def
    using ne by simp
  have "\<exists>wx prov. open_and_process env c fp prov flip conv hdr verbose wx = (Inr r, w')
          \<and> path_exists wx cd1
          \<and> SKYVIEW_PARAMS_survey wx = SKYVIEW_PARAMS_survey w2"
  proof (cases "ff \<or> \<not> path_exists w2 c")
    case False
    then show ?thesis using first unfolded w2_dir by auto
  next
    case True
    obtain res w3 where
      ft: "fetch_try env c params fp survey scaling timeout verbose w2 = (res, w3)"
      by (cases "fetch_try env c params fp survey scaling timeout verbose w2") auto
    from first unfolded True ft some
    have "open_and_process env c fp ''new download'' flip conv hdr verbose w3 = (Inr r, w')"
      by (auto split: sum.splits bool.splits if_splits)
    moreover have "path_exists w3 cd1"
      using fetch_try_path_exists[OF ft w2_dir] .
    moreover have "SKYVIEW_PARAMS_survey w3 = SKYVIEW_PARAMS_survey w2"
      using fetch_try_preserves[OF ft] by simp
    ultimately show ?thesis by blast
  qed
  then obtain wx prov where
    op: "open_and_process env c fp prov flip conv hdr verbose wx = (Inr r, w')"
    and wx_dir: "path_exists wx cd1"
    and wx_survey: "SKYVIEW_PARAMS_survey wx = SKYVIEW_PARAMS_survey w2"
    by blast
  from open_and_process_preserves[OF op]
  have pres: "files w' = files wx" "dirs w' = dirs wx"
    "SKYVIEW_PARAMS_survey w' = SKYVIEW_PARAMS_survey wx"
    by simp_all
  have w'_dir: "path_exists w' cd1"
    using wx_dir pres by (simp add: path_exists_def)
  have w'_file: "path_exists w' c"
    using open_and_process_reads_file[OF op] pres by (simp add: path_exists_def)
  have w'_survey: "SKYVIEW_PARAMS_survey w' = (SKYVIEW_PARAMS_survey w)[0 := survey]"
    using pres wx_survey w2_survey by simp
  have "(SKYVIEW_PARAMS_survey w')[0 := survey] = SKYVIEW_PARAMS_survey w'"
    by (simp add: w'_survey)
  moreover have "SKYVIEW_PARAMS_survey w' \<noteq> []"
    using ne by (simp add: w'_survey)
  ultimately
  have second: "get_stamp (env\<lparr>requests_get := g\<rparr>) w' ra decl survey scaling flip conv False
                  cachedir timeout hdr verbose
      = open_and_process (env\<lparr>requests_get := g\<rparr>) c fp ''cache'' flip conv hdr verbose w'"
    using w'_dir w'_file
      get_stamp_from_cache[of w' survey cachedir "env\<lparr>requests_get := g\<rparr>" ra decl scaling
        flip conv timeout hdr verbose]
    by (cases "CHR ''~'' \<in> set cachedir") (simp_all add: fp_def cd1_def c_def)
  from open_and_process_again[OF op, of w' g "''cache''"] pres
  obtain w'' where
    again: "open_and_process (env\<lparr>requests_get := g\<rparr>) c fp ''cache'' flip conv hdr verbose w'
              = (Inr r, w'')"
    by auto
  from open_and_process_preserves[OF again]
  show ?thesis using second again by simp
qed

theorem get_stamp_second_call_from_cache_witness:
  "\<exists>w''. get_stamp (demo_env\<lparr>requests_get := (\<lambda>url params timeout. HttpFailed)\<rparr>)
            (snd (get_stamp demo_env (demo_world Map.empty)
                    0 0 ''DSS2 Red'' ''Linear'' True None False ''/cache'' 10 True False))
            0 0 ''DSS2 Red'' ''Linear'' True None False ''/cache'' 10 True False
          = (Inr (RFrameHeader [[0, 0, 3], [6, 0, 0]] []), w'')
        \<and> requests_sent w''
            = requests_sent (snd (get_stamp demo_env (demo_world Map.empty)
                0 0 ''DSS2 Red'' ''Linear'' True None False ''/cache'' 10 True False))
        \<and> files w''
            = files (snd (get_stamp demo_env (demo_world Map.empty)
                0 0 ''DSS2 Red'' ''Linear'' True None False ''/cache'' 10 True False))"
proof -
  have "fst (get_stamp demo_env (demo_world Map.empty)
               0 0 ''DSS2 Red'' ''Linear'' True None False ''/cache'' 10 True False)
          = Inr (RFrameHeader [[0, 0, 3], [6, 0, 0]] [])"
    by (simp add: get_stamp_def demo_defs open_and_process_def fetch_try_def findall_demo_page
          Let_def flipud_def del: FITS_REGEX_findall.simps)
  then have first:
    "get_stamp demo_env (demo_world Map.empty)
       0 0 ''DSS2 Red'' ''Linear'' True None False ''/cache'' 10 True False
     = (Inr (RFrameHeader [[0, 0, 3], [6, 0, 0]] []),
        snd (get_stamp demo_env (demo_world Map.empty)
               0 0 ''DSS2 Red'' ''Linear'' True None False ''/cache'' 10 True False))"
    by (metis prod.collapse)
  show ?thesis
    by (rule get_stamp_second_call_from_cache[OF first]) simp
qed

section \<open>Properties of the feature collection and the classifier functions\<close>

lemma rf_log_fields [simp]:
  "rf_files (rf_log l m w) = rf_files w"
  "glob_results (rf_log l m w) = glob_results w"
  "rf_writable (rf_log l m w) = rf_writable w"
  "np_str_float (rf_log l m w) = np_str_float w"
  by (simp_all add: rf_log_def)

lemmas rf_eval_defs =
  collect_features_def limit_pklist_def stack_features_def add_labels_def subscript_def
  get_list_def iterate_def np_array_def column_stack_def collect_kwargs_def featurestoget_def
  os_path_join_def os_path_dirname_def rstrip_slash_def rf_log_def Let_def
  common_type_def is_str_def cell_str_def
  demo_disk_def demo_varf_def odd_varf_def result_entry_def array_shape_def

lemmas apply_eval_defs =
  apply_rf_classifier_def predict_and_write_def demo_bundle_def resolve_arg_def
  contains_key_def subscript_val_def as_str_def as_featurelist_def

subsection \<open>An empty directory\<close>

lemma collect_features_no_files:
  assumes "limit_pklist maxobjects (glob_results w (os_path_join featuresdir pklglob)) = []"
  shows "fst (collect_features w featuresdir magcol outfile pklglob featurestouse maxobjects
                 labeldict labeltype) = Inl ValueError"
  using assms
  by (simp add: collect_features_def Let_def stack_features_def subscript_def iterate_def
        np_array_def column_stack_def)

text \<open>
  C2.  With a resolvable bundle and a directory in which the bundle's glob matches no
  file, \<open>apply_rf_classifier\<close> raises: no feature was seen, so \<open>np.column_stack\<close> is
  called on an empty sequence inside \<open>collect_features\<close>.
\<close>

theorem apply_rf_classifier_empty_glob_raises:
  "glob_results demo_disk (os_path_join ''/empty'' ''varfeatures-*.pkl'') = []
   \<and> fst (apply_rf_classifier demo_disk demo_bundle ''/empty'' ''/out/pred.pkl'' None)
       = Inl ValueError"
proof -
  have g: "glob_results demo_disk (os_path_join ''/empty'' ''varfeatures-*.pkl'') = []"
    by (simp add: demo_disk_def os_path_join_def)
  then have "limit_pklist None (glob_results demo_disk (os_path_join ''/empty'' ''varfeatures-*.pkl'')) = []"
    by (simp add: limit_pklist_def)
  from collect_features_no_files[OF this]
  have "fst (collect_features demo_disk ''/empty'' ''aep_000''
               (os_path_join (os_path_dirname ''/out/pred.pkl'') ''actual-collected-features.pkl'')
               ''varfeatures-*.pkl'' (Some [SCell ''stetsonj'', SCell ''mad'']) None None
               ''binary'') = Inl ValueError" .
  then obtain w1 where
    "collect_features demo_disk ''/empty'' ''aep_000''
       (os_path_join (os_path_dirname ''/out/pred.pkl'') ''actual-collected-features.pkl'')
       ''varfeatures-*.pkl'' (Some [SCell ''stetsonj'', SCell ''mad'']) None None ''binary''
     = (Inl ValueError, w1)"
    by (metis prod.collapse)
  then have "fst (apply_rf_classifier demo_disk demo_bundle ''/empty'' ''/out/pred.pkl'' None)
       = Inl ValueError"
    by (simp add: apply_rf_classifier_def demo_bundle_def resolve_arg_def contains_key_def
          subscript_val_def subscript_def collect_kwargs_def as_str_def as_featurelist_def
          Let_def)
  with g show ?thesis by simp
qed

subsection \<open>The parameters of the second collection\<close>

text \<open>
  C3.  The bundle was built from a collection with \<open>labeltype='classes'\<close>.  The
  collection \<open>apply_rf_classifier\<close> makes records \<open>labeltype='binary'\<close> in its
  \<open>'kwargs'\<close>: the label type of the bundle did not reach \<open>collect_features\<close>.
\<close>

theorem apply_rf_classifier_drops_labeltype:
  "dict_path demo_bundle [''collect_kwargs'', ''labeltype''] = Some (VStr ''classes'')
   \<and> (case fst (apply_rf_classifier demo_disk demo_bundle ''/feat'' ''/out/pred.pkl'' None) of
        Inl e \<Rightarrow> None
      | Inr out \<Rightarrow> dict_path out [''features'', ''kwargs'', ''labeltype''])
     = Some (VStr ''binary'')"
  by (simp add: apply_eval_defs rf_eval_defs)

text \<open>The glob, the feature names and the magnitude column of the bundle do reach it.\<close>

lemma apply_rf_classifier_collects_with_bundle_parameters:
  "(case fst (apply_rf_classifier demo_disk demo_bundle ''/feat'' ''/out/pred.pkl'' None) of
      Inl e \<Rightarrow> None
    | Inr out \<Rightarrow> dict_path out [''features'', ''kwargs'', ''pklglob''])
     = Some (VStr ''varfeatures-*.pkl'')
   \<and> (case fst (apply_rf_classifier demo_disk demo_bundle ''/feat'' ''/out/pred.pkl'' None) of
        Inl e \<Rightarrow> None
      | Inr out \<Rightarrow> dict_path out [''features'', ''kwargs'', ''featurestouse''])
     = Some (VList [SCell ''stetsonj'', SCell ''mad''])"
  by (simp add: apply_eval_defs rf_eval_defs)

subsection \<open>Arguments that cannot be resolved\<close>

text \<open>
  C8, as stated, fails.  \<open>/junk.pkl\<close> exists and is not a pickle: the argument is
  neither a loadable path to a pickle nor a dict, and both functions raise the error of
  \<open>pickle.load\<close>.
\<close>

theorem unloadable_path_raises:
  "names_existing_path demo_disk (VStr ''/junk.pkl'')
   \<and> pickle_load demo_disk ''/junk.pkl'' = Inl UnpicklingError
   \<and> \<not> is_dict (VStr ''/junk.pkl'')
   \<and> fst (apply_rf_classifier demo_disk (VStr ''/junk.pkl'') ''/feat'' ''/out/pred.pkl'' None)
       = Inl UnpicklingError
   \<and> fst (train_rf_classifier demo_sklearn demo_disk (VStr ''/junk.pkl'') 0.25 20 5 ''f1''
            None (- 1))
       = Inl UnpicklingError"
  by (simp add: apply_rf_classifier_def train_rf_classifier_def resolve_arg_def pickle_load_def
        demo_disk_def names_existing_path_def is_dict_def)

text \<open>
  C8, amended.  For an argument that is neither a string naming an existing path nor a
  dict, both functions log one error line and return \<open>None\<close>; nothing else in the world
  changes.  For a string naming an existing path both functions call \<open>pickle.load\<close> on
  it, and when that raises (the file is not a pickle or is empty, the path is a
  directory) the exception leaves the function, with nothing logged.
\<close>

theorem unresolvable_argument_returns_none:
  "(\<not> names_existing_path w arg \<and> \<not> is_dict arg \<longrightarrow>
      train_rf_classifier sk w arg test_fraction n_iter n_kfolds metric to_pickle nworkers
        = (Inr VNone, rf_log ERR ''can't figure out the input collected_features arg'' w)
      \<and> apply_rf_classifier w arg varfeaturesdir outpickle maxobjects
        = (Inr VNone, rf_log ERR ''can't figure out the input classifier arg'' w))
   \<and> (\<forall>path e. arg = VStr path \<and> names_existing_path w arg \<and> pickle_load w path = Inl e \<longrightarrow>
      train_rf_classifier sk w arg test_fraction n_iter n_kfolds metric to_pickle nworkers
        = (Inl e, w)
      \<and> apply_rf_classifier w arg varfeaturesdir outpickle maxobjects = (Inl e, w))"
proof (intro conjI impI allI)
  assume "\<not> names_existing_path w arg \<and> \<not> is_dict arg"
  then have none: "resolve_arg w arg = Inr None"
    by (cases arg) (simp_all add: resolve_arg_def names_existing_path_def is_dict_def)
  from none show
    "train_rf_classifier sk w arg test_fraction n_iter n_kfolds metric to_pickle nworkers
       = (Inr VNone, rf_log ERR ''can't figure out the input collected_features arg'' w)"
    by (simp add: train_rf_classifier_def)
  from none show
    "apply_rf_classifier w arg varfeaturesdir outpickle maxobjects
       = (Inr VNone, rf_log ERR ''can't figure out the input classifier arg'' w)"
    by (simp add: apply_rf_classifier_def)
next
  fix path e
  assume "arg = VStr path \<and> names_existing_path w arg \<and> pickle_load w path = Inl e"
  then have raised: "resolve_arg w arg = Inl e"
    by (auto simp: resolve_arg_def names_existing_path_def)
  from raised show
    "train_rf_classifier sk w arg test_fraction n_iter n_kfolds metric to_pickle nworkers
       = (Inl e, w)"
    by (simp add: train_rf_classifier_def)
  from raised show "apply_rf_classifier w arg varfeaturesdir outpickle maxobjects = (Inl e, w)"
    by (simp add: apply_rf_classifier_def)
qed

theorem unresolvable_argument_returns_none_witness:
  "train_rf_classifier demo_sklearn demo_disk (VStr ''/missing.pkl'') 0.25 20 5 ''f1'' None (- 1)
     = (Inr VNone, rf_log ERR ''can't figure out the input collected_features arg'' demo_disk)
   \<and> apply_rf_classifier demo_disk (VStr ''/missing.pkl'') ''/feat'' ''/out/pred.pkl'' None
     = (Inr VNone, rf_log ERR ''can't figure out the input classifier arg'' demo_disk)
   \<and> train_rf_classifier demo_sklearn demo_disk (VStr ''/feat'') 0.25 20 5 ''f1'' None (- 1)
     = (Inl OSError, demo_disk)
   \<and> apply_rf_classifier demo_disk (VStr ''/feat'') ''/feat'' ''/out/pred.pkl'' None
     = (Inl OSError, demo_disk)
   \<and> train_rf_classifier demo_sklearn demo_disk (VStr ''/empty.pkl'') 0.25 20 5 ''f1'' None (- 1)
     = (Inl EOFError, demo_disk)
   \<and> apply_rf_classifier demo_disk (VStr ''/empty.pkl'') ''/feat'' ''/out/pred.pkl'' None
     = (Inl EOFError, demo_disk)"
proof -
  have missing: "\<not> names_existing_path demo_disk (VStr ''/missing.pkl'')
                 \<and> \<not> is_dict (VStr ''/missing.pkl'')"
    by (simp add: names_existing_path_def is_dict_def demo_disk_def)
  have directory: "VStr ''/feat'' = VStr ''/feat'' \<and> names_existing_path demo_disk (VStr ''/feat'')
                   \<and> pickle_load demo_disk ''/feat'' = Inl OSError"
    by (simp add: names_existing_path_def pickle_load_def demo_disk_def)
  have empty: "VStr ''/empty.pkl'' = VStr ''/empty.pkl''
               \<and> names_existing_path demo_disk (VStr ''/empty.pkl'')
               \<and> pickle_load demo_disk ''/empty.pkl'' = Inl EOFError"
    by (simp add: names_existing_path_def pickle_load_def demo_disk_def)
  from unresolvable_argument_returns_none[of demo_disk "VStr ''/missing.pkl''" demo_sklearn
         "0.25" "20" "5" "''f1''" None "- 1" "''/feat''" "''/out/pred.pkl''" None] missing
  have a: "train_rf_classifier demo_sklearn demo_disk (VStr ''/missing.pkl'') 0.25 20 5 ''f1''
             None (- 1)
           = (Inr VNone, rf_log ERR ''can't figure out the input collected_features arg''
                demo_disk)
         \<and> apply_rf_classifier demo_disk (VStr ''/missing.pkl'') ''/feat'' ''/out/pred.pkl'' None
           = (Inr VNone, rf_log ERR ''can't figure out the input classifier arg'' demo_disk)"
    by blast
  from unresolvable_argument_returns_none[of demo_disk "VStr ''/feat''" demo_sklearn
         "0.25" "20" "5" "''f1''" None "- 1" "''/feat''" "''/out/pred.pkl''" None] directory
  have b: "train_rf_classifier demo_sklearn demo_disk (VStr ''/feat'') 0.25 20 5 ''f1'' None (- 1)
           = (Inl OSError, demo_disk)
         \<and> apply_rf_classifier demo_disk (VStr ''/feat'') ''/feat'' ''/out/pred.pkl'' None
           = (Inl OSError, demo_disk)"
    by blast
  from unresolvable_argument_returns_none[of demo_disk "VStr ''/empty.pkl''" demo_sklearn
         "0.25" "20" "5" "''f1''" None "- 1" "''/feat''" "''/out/pred.pkl''" None] empty
  have c: "train_rf_classifier demo_sklearn demo_disk (VStr ''/empty.pkl'') 0.25 20 5 ''f1''
             None (- 1)
           = (Inl EOFError, demo_disk)
         \<and> apply_rf_classifier demo_disk (VStr ''/empty.pkl'') ''/feat'' ''/out/pred.pkl'' None
           = (Inl EOFError, demo_disk)"
    by blast
  from a b c show ?thesis by simp
qed

subsection \<open>The label array\<close>

lemma to_int64_class_code: "to_int64 v = Inr l \<Longrightarrow> l = class_code v"
  by (auto simp: to_int64_def class_code_def split: labelvalue.splits if_splits)

lemma label_entry_expected:
  "label_entry ld lt c = Inr l \<Longrightarrow> l = expected_label ld lt c"
  by (auto simp: label_entry_def expected_label_def
           split: cell.splits option.splits if_splits dest: to_int64_class_code)

lemma label_loop_expected:
  "label_loop ld lt ids = Inr ls \<Longrightarrow> ls = map (expected_label ld lt) ids"
proof (induction ids arbitrary: ls)
  case Nil
  then show ?case by simp
next
  case (Cons c ids)
  then show ?case
    by (auto split: sum.splits dest: label_entry_expected)
qed

lemma expected_label_binary: "expected_label ld ''binary'' c \<in> {0, 1}"
  by (simp add: expected_label_def split: cell.splits option.splits)

lemma iterate_np_array:
  "iterate (np_array fmt v) = Inr ids \<Longrightarrow> np_array fmt v = VArray ids"
  by (cases v) (simp_all add: iterate_def np_array_def)

lemma stack_features_objectids:
  "stack_features fmt d1 = Inr d2 \<Longrightarrow> \<exists>v. d2 ''objectids'' = Some (np_array fmt v)"
  unfolding stack_features_def
  by (auto simp: Let_def subscript_def split: sum.splits option.splits if_splits)

text \<open>
  C6.  When \<open>collect_features\<close> is given a label dict and returns, the label array has
  one entry per entry of the object-identifier array, in the same order, and the entry
  of an object is the label the specification gives it: in binary mode 1 for a truthy
  entry of the label dict and 0 otherwise, in class mode the integer class code, and 0
  for an object the label dict does not know.
\<close>

theorem collect_features_labels:
  assumes ok: "collect_features w featuresdir magcol outfile pklglob featurestouse maxobjects
                 (Some labeldict) labeltype = (Inr fd, w')"
  shows "\<exists>ids labels.
           fd ''objectids'' = Some (VArray ids)
         \<and> fd ''labels_array'' = Some (VLabels labels)
         \<and> length labels = length ids
         \<and> labels = map (expected_label labeldict labeltype) ids
         \<and> (labeltype = ''binary'' \<longrightarrow> set labels \<subseteq> {0, 1})"
proof -
  define pklist where
    "pklist = limit_pklist maxobjects (glob_results w (os_path_join featuresdir pklglob))"
  define w1 where "w1 = rf_log INFO (''collecting features for magcol: '' @ magcol) w"
  define d0 :: pydict where
    "d0 = [''objectids'' \<mapsto> VList [], ''magcol'' \<mapsto> VStr magcol,
           ''availablefeatures'' \<mapsto> VList []]"
  from ok obtain d1 d2 d3 where
    s2: "stack_features (np_str_float w) d1 = Inr d2"
    and s3: "add_labels (Some labeldict) labeltype d2 = Inr d3"
    and fd: "fd = d3(''kwargs'' \<mapsto> collect_kwargs pklglob featurestouse maxobjects labeltype)"
    unfolding collect_features_def Let_def
    by (auto split: sum.splits if_splits)
  from stack_features_objectids[OF s2] obtain v where
    v: "d2 ''objectids'' = Some (np_array (np_str_float w) v)"
    by blast
  from s3 v obtain ids labels where
    it: "iterate (np_array (np_str_float w) v) = Inr ids"
    and ll: "label_loop labeldict labeltype ids = Inr labels"
    and d3: "d3 = d2(''labels_array'' \<mapsto> VLabels labels)"
    unfolding add_labels_def by (auto simp: subscript_def split: sum.splits)
  have arr: "np_array (np_str_float w) v = VArray ids" using iterate_np_array[OF it] .
  have labels: "labels = map (expected_label labeldict labeltype) ids"
    using label_loop_expected[OF ll] .
  have "fd ''objectids'' = Some (VArray ids)"
    using fd d3 v arr by simp
  moreover have "fd ''labels_array'' = Some (VLabels labels)"
    using fd d3 by simp
  moreover have "labeltype = ''binary'' \<longrightarrow> set labels \<subseteq> {0, 1}"
    using labels expected_label_binary[of labeldict] by auto
  ultimately show ?thesis using labels by simp
qed

theorem collect_features_labels_witness:
  "result_entry (collect_features demo_disk ''/feat'' ''aep_000'' ''/out/f.pkl''
      ''varfeatures-*.pkl'' (Some [SCell ''stetsonj'', SCell ''mad'']) None
      (Some demo_labeldict) ''binary'') ''labels_array''
   = Some (VLabels [1, 0])"
proof -
  let ?res = "collect_features demo_disk ''/feat'' ''aep_000'' ''/out/f.pkl''
      ''varfeatures-*.pkl'' (Some [SCell ''stetsonj'', SCell ''mad'']) None
      (Some demo_labeldict) ''binary''"
  have ids: "result_entry ?res ''objectids'' = Some (VArray [SCell ''HAT-1'', SCell ''HAT-2''])"
    by (simp add: rf_eval_defs demo_labeldict_def label_entry_def truthy_def)
  then obtain fd where fd: "fst ?res = Inr fd"
    by (cases "fst ?res") (simp_all add: result_entry_def)
  then have ok: "?res = (Inr fd, snd ?res)"
    by (metis prod.collapse)
  from collect_features_labels[OF ok] obtain ids labels where
    "fd ''objectids'' = Some (VArray ids)"
    "fd ''labels_array'' = Some (VLabels labels)"
    "labels = map (expected_label demo_labeldict ''binary'') ids"
    by blast
  with ids fd show ?thesis
    by (simp add: result_entry_def expected_label_def demo_labeldict_def truthy_def)
qed

text \<open>
  Where a feature is named \<open>objectids\<close> its values join the object identifiers, the
  array stores them as text, and the labels are looked up under that text.
\<close>

lemma collect_features_labels_of_mixed_objectids:
  "result_entry (collect_features demo_disk ''/odd'' ''aep_000'' ''/out/f.pkl''
      ''varfeatures-*.pkl'' (Some [SCell ''objectids'']) None
      (Some [''7.0'' \<mapsto> LBool True]) ''binary'') ''objectids''
   = Some (VArray [SCell ''7.0'', SCell ''HAT-2'', SCell ''9.0''])
   \<and> result_entry (collect_features demo_disk ''/odd'' ''aep_000'' ''/out/f.pkl''
      ''varfeatures-*.pkl'' (Some [SCell ''objectids'']) None
      (Some [''7.0'' \<mapsto> LBool True]) ''binary'') ''labels_array''
   = Some (VLabels [1, 0, 0])"
  by (simp add: rf_eval_defs label_entry_def truthy_def)

subsection \<open>The feature matrix\<close>

lemma SCell_mem [simp]: "SCell f \<in> SCell ` S \<longleftrightarrow> f \<in> S"
  by auto

lemma collect_one_requested:
  assumes "fd ''availablefeatures'' = Some (VList (map SCell A))"
    and "distinct rest" and "''availablefeatures'' \<notin> set rest"
    and "set rest \<subseteq> dom thisfeatures"
    and "\<forall>f \<in> set rest. f \<in> set A \<longrightarrow> (\<exists>col. fd f = Some (VList col))"
  shows "\<exists>fd'. collect_one thisfeatures (map SCell rest) fd = Inr fd'
        \<and> fd' ''availablefeatures'' = Some (VList (map SCell (A @ filter (\<lambda>f. f \<notin> set A) rest)))
        \<and> (\<forall>f \<in> set rest. fd' f = Some (VList ((if f \<in> set A then col_of fd f else [])
                                                  @ [NCell (the (thisfeatures f))])))
        \<and> (\<forall>k. k \<notin> set rest \<longrightarrow> k \<noteq> ''availablefeatures'' \<longrightarrow> fd' k = fd k)"
  using assms
proof (induction rest arbitrary: fd A)
  case Nil
  then show ?case by simp
next
  case (Cons f rest)
  from Cons.prems obtain v where v: "thisfeatures f = Some v" by auto
  have fne: "f \<noteq> ''availablefeatures''" and fnr: "f \<notin> set rest" and dr: "distinct rest"
    and nr: "''availablefeatures'' \<notin> set rest" and sub: "set rest \<subseteq> dom thisfeatures"
    using Cons.prems by auto
  have gl: "get_list fd ''availablefeatures'' = Inr (map SCell A)"
    using Cons.prems(1) by (simp add: get_list_def)
  show ?case
  proof (cases "f \<in> set A")
    case True
    with Cons.prems(5) obtain col where col: "fd f = Some (VList col)" by auto
    define dn where "dn = fd(f \<mapsto> VList (col @ [NCell v]))"
    have step: "collect_one thisfeatures (map SCell (f # rest)) fd
                  = collect_one thisfeatures (map SCell rest) dn"
      using gl v True col by (simp add: Let_def get_list_def dn_def)
    have p1: "dn ''availablefeatures'' = Some (VList (map SCell A))"
      using Cons.prems(1) fne by (simp add: dn_def)
    have p5: "\<forall>g \<in> set rest. g \<in> set A \<longrightarrow> (\<exists>c. dn g = Some (VList c))"
      using Cons.prems(5) fnr by (auto simp: dn_def)
    from Cons.IH[OF p1 dr nr sub p5] obtain fd' where
      r: "collect_one thisfeatures (map SCell rest) dn = Inr fd'"
      and a: "fd' ''availablefeatures'' = Some (VList (map SCell (A @ filter (\<lambda>f. f \<notin> set A) rest)))"
      and c: "\<forall>g \<in> set rest. fd' g = Some (VList ((if g \<in> set A then col_of dn g else [])
                                                  @ [NCell (the (thisfeatures g))]))"
      and k: "\<forall>k. k \<notin> set rest \<longrightarrow> k \<noteq> ''availablefeatures'' \<longrightarrow> fd' k = dn k"
      by blast
    have cf: "fd' f = Some (VList (col_of fd f @ [NCell (the (thisfeatures f))]))"
      using k fnr fne v col by (simp add: dn_def col_of_def)
    have cg: "\<forall>g \<in> set rest. col_of dn g = col_of fd g"
      using fnr by (auto simp: dn_def col_of_def)
    show ?thesis
      using step r a c k cf cg True by (auto simp: dn_def)
  next
    case False
    define d1 where "d1 = (fd(''availablefeatures'' \<mapsto> VList (map SCell A @ [SCell f])))(f \<mapsto> VList [])"
    define dn where "dn = d1(f \<mapsto> VList ([] @ [NCell v]))"
    have step: "collect_one thisfeatures (map SCell (f # rest)) fd
                  = collect_one thisfeatures (map SCell rest) dn"
      using gl v False by (simp add: Let_def get_list_def dn_def d1_def)
    have p1: "dn ''availablefeatures'' = Some (VList (map SCell (A @ [f])))"
      using fne by (simp add: dn_def d1_def)
    have p5: "\<forall>g \<in> set rest. g \<in> set (A @ [f]) \<longrightarrow> (\<exists>c. dn g = Some (VList c))"
      using Cons.prems(5) fnr nr by (auto simp: dn_def d1_def)
    from Cons.IH[OF p1 dr nr sub p5] obtain fd' where
      r: "collect_one thisfeatures (map SCell rest) dn = Inr fd'"
      and a: "fd' ''availablefeatures''
                = Some (VList (map SCell ((A @ [f]) @ filter (\<lambda>g. g \<notin> set (A @ [f])) rest)))"
      and c: "\<forall>g \<in> set rest. fd' g = Some (VList ((if g \<in> set (A @ [f]) then col_of dn g else [])
                                                  @ [NCell (the (thisfeatures g))]))"
      and k: "\<forall>k. k \<notin> set rest \<longrightarrow> k \<noteq> ''availablefeatures'' \<longrightarrow> fd' k = dn k"
      by blast
    have flt: "filter (\<lambda>g. g \<noteq> f \<and> g \<notin> set A) rest = filter (\<lambda>g. g \<notin> set A) rest"
      using fnr by (auto intro: filter_cong)
    have a': "fd' ''availablefeatures''
                = Some (VList (map SCell (A @ filter (\<lambda>g. g \<notin> set A) (f # rest))))"
      using a False by (simp add: flt)
    have cf: "fd' f = Some (VList ([] @ [NCell (the (thisfeatures f))]))"
      using k fnr fne v by (simp add: dn_def)
    have cg: "\<forall>g \<in> set rest. col_of dn g = col_of fd g"
      using fnr nr by (auto simp: dn_def d1_def col_of_def)
    have c': "\<forall>g \<in> set rest. fd' g = Some (VList ((if g \<in> set A then col_of fd g else [])
                                                  @ [NCell (the (thisfeatures g))]))"
      using c cg fnr by auto
    have k': "\<forall>k. k \<notin> set (f # rest) \<longrightarrow> k \<noteq> ''availablefeatures'' \<longrightarrow> fd' k = fd k"
      using k by (auto simp: dn_def d1_def)
    show ?thesis
      using step r a' c' cf k' False by auto
  qed
qed


lemma filter_not_in_nil_or_self:
  "A = [] \<or> A = req \<Longrightarrow> A @ filter (\<lambda>f. f \<notin> set A) req = req"
  by auto

text \<open>
  A requested feature that the pickle does not have changes nothing, so the loop over
  the requested features is the loop over those of them the pickle has.
\<close>

lemma collect_one_filter:
  assumes "\<exists>xs. fd ''availablefeatures'' = Some (VList xs)"
    and "''availablefeatures'' \<notin> set (filter (\<lambda>f. thisfeatures f \<noteq> None) rest)"
  shows "collect_one thisfeatures (map SCell rest) fd
           = collect_one thisfeatures (map SCell (filter (\<lambda>f. thisfeatures f \<noteq> None) rest)) fd"
  using assms
proof (induction rest arbitrary: fd)
  case Nil
  then show ?case by simp
next
  case (Cons f rest)
  from Cons.prems(1) obtain xs where xs: "fd ''availablefeatures'' = Some (VList xs)" by blast
  have gl: "get_list fd ''availablefeatures'' = Inr xs"
    using xs by (simp add: get_list_def)
  show ?case
  proof (cases "thisfeatures f")
    case None
    have nr: "''availablefeatures'' \<notin> set (filter (\<lambda>f. thisfeatures f \<noteq> None) rest)"
      using Cons.prems(2) None by simp
    show ?thesis
      using None gl Cons.IH[of fd, OF Cons.prems(1) nr] by (simp add: Let_def)
  next
    case (Some v)
    have fne: "f \<noteq> ''availablefeatures''"
      and nr: "''availablefeatures'' \<notin> set (filter (\<lambda>f. thisfeatures f \<noteq> None) rest)"
      using Cons.prems(2) Some by auto
    define d1 where
      "d1 = (if SCell f \<notin> set xs
             then (fd(''availablefeatures'' \<mapsto> VList (xs @ [SCell f])))(f \<mapsto> VList [])
             else fd)"
    have d1_av: "\<exists>ys. d1 ''availablefeatures'' = Some (VList ys)"
      using xs fne by (simp add: d1_def)
    show ?thesis
    proof (cases "get_list d1 f")
      case (Inl e)
      then show ?thesis
        using Some gl by (simp add: Let_def d1_def)
    next
      case (Inr column)
      define dn where "dn = d1(f \<mapsto> VList (column @ [NCell v]))"
      have dn_av: "\<exists>ys. dn ''availablefeatures'' = Some (VList ys)"
        using d1_av fne by (simp add: dn_def)
      have l: "collect_one thisfeatures (map SCell (f # rest)) fd
                 = collect_one thisfeatures (map SCell rest) dn"
        using Some gl Inr by (simp add: Let_def d1_def dn_def)
      have r: "collect_one thisfeatures
                 (map SCell (filter (\<lambda>f. thisfeatures f \<noteq> None) (f # rest))) fd
               = collect_one thisfeatures
                   (map SCell (filter (\<lambda>f. thisfeatures f \<noteq> None) rest)) dn"
        using Some gl Inr by (simp add: Let_def d1_def dn_def)
      show ?thesis
        using l r Cons.IH[of dn, OF dn_av nr] by simp
    qed
  qed
qed

lemma collect_all_found:
  assumes req: "featurestoget featurestouse = map SCell req"
    and found: "distinct found" "''objectids'' \<notin> set found" "''availablefeatures'' \<notin> set found"
    and A: "A = [] \<or> A = found"
    and fd_av: "fd ''availablefeatures'' = Some (VList (map SCell A))"
    and fd_ids: "fd ''objectids'' = Some (VList (map SCell ids))"
    and fd_cols: "\<forall>f \<in> set found. f \<in> set A \<longrightarrow> (\<exists>col. fd f = Some (VList col))"
    and files: "map (rf_files w) paths = map (\<lambda>r. Some (VarfPickle r)) rs"
    and exposed: "\<forall>r \<in> set rs. \<exists>fs. vf_magcols r magcol = Some fs
                    \<and> filter (\<lambda>f. fs f \<noteq> None) req = found"
    and dist: "distinct (ids @ map vf_objectid rs)"
  shows "\<exists>fd'. collect_all w magcol featurestouse paths fd = Inr fd'
      \<and> fd' ''availablefeatures'' = Some (VList (map SCell (if rs = [] then A else found)))
      \<and> fd' ''objectids'' = Some (VList (map SCell (ids @ map vf_objectid rs)))
      \<and> (\<forall>f \<in> set found. rs \<noteq> [] \<or> f \<in> set A \<longrightarrow>
            fd' f = Some (VList ((if f \<in> set A then col_of fd f else [])
                                   @ map (\<lambda>r. NCell (feature_value r magcol f)) rs)))"
  using A fd_av fd_ids fd_cols files exposed dist
proof (induction rs arbitrary: paths fd A ids)
  case Nil
  then have "paths = []" by simp
  with Nil show ?case by (auto simp: col_of_def)
next
  case (Cons r rs)
  from Cons.prems(5) obtain p ps where
    paths: "paths = p # ps" and p: "rf_files w p = Some (VarfPickle r)"
    and ps: "map (rf_files w) ps = map (\<lambda>r. Some (VarfPickle r)) rs"
    by (cases paths) auto
  from Cons.prems(6) obtain fs where
    fs: "vf_magcols r magcol = Some fs" and flt: "filter (\<lambda>f. fs f \<noteq> None) req = found"
    by auto
  have sub: "set found \<subseteq> dom fs"
    using flt by auto
  have new_id: "SCell (vf_objectid r) \<notin> set (map SCell ids)"
    using Cons.prems(7) by auto
  define d1 where
    "d1 = fd(''objectids'' \<mapsto> VList (map SCell ids @ [SCell (vf_objectid r)]))"
  have d1_av: "d1 ''availablefeatures'' = Some (VList (map SCell A))"
    using Cons.prems(2) by (simp add: d1_def)
  have d1_cols: "\<forall>f \<in> set found. f \<in> set A \<longrightarrow> (\<exists>col. d1 f = Some (VList col))"
    using Cons.prems(4) found(2) by (auto simp: d1_def)
  have d1_av_ex: "\<exists>xs. d1 ''availablefeatures'' = Some (VList xs)"
    using d1_av by blast
  have not_av: "''availablefeatures'' \<notin> set (filter (\<lambda>f. fs f \<noteq> None) req)"
    using found(3) flt by simp
  have skip: "collect_one fs (map SCell req) d1 = collect_one fs (map SCell found) d1"
    using collect_one_filter[where fd = d1 and thisfeatures = fs and rest = req,
            OF d1_av_ex not_av] flt by simp
  from collect_one_requested[OF d1_av found(1) found(3) sub d1_cols] obtain d2 where
    one: "collect_one fs (map SCell found) d1 = Inr d2"
    and d2_av0: "d2 ''availablefeatures''
                  = Some (VList (map SCell (A @ filter (\<lambda>f. f \<notin> set A) found)))"
    and d2_cols: "\<forall>f \<in> set found. d2 f = Some (VList ((if f \<in> set A then col_of d1 f else [])
                                                       @ [NCell (the (fs f))]))"
    and d2_other: "\<forall>k. k \<notin> set found \<longrightarrow> k \<noteq> ''availablefeatures'' \<longrightarrow> d2 k = d1 k"
    by blast
  have d2_av: "d2 ''availablefeatures'' = Some (VList (map SCell found))"
    using d2_av0 filter_not_in_nil_or_self[OF Cons.prems(1)] by simp
  have d2_ids: "d2 ''objectids'' = Some (VList (map SCell (ids @ [vf_objectid r])))"
    using d2_other found(2) by (simp add: d1_def)
  have d2_cols': "\<forall>f \<in> set found. f \<in> set found \<longrightarrow> (\<exists>col. d2 f = Some (VList col))"
    using d2_cols by simp
  have dist': "distinct ((ids @ [vf_objectid r]) @ map vf_objectid rs)"
    using Cons.prems(7) by simp
  have exposed': "\<forall>r \<in> set rs. \<exists>fs. vf_magcols r magcol = Some fs
                    \<and> filter (\<lambda>f. fs f \<noteq> None) req = found"
    using Cons.prems(6) by simp
  from Cons.IH[OF _ d2_av d2_ids d2_cols' ps exposed' dist'] obtain fd' where
    rest: "collect_all w magcol featurestouse ps d2 = Inr fd'"
    and fd'_av: "fd' ''availablefeatures''
                   = Some (VList (map SCell (if rs = [] then found else found)))"
    and fd'_ids: "fd' ''objectids''
                    = Some (VList (map SCell ((ids @ [vf_objectid r]) @ map vf_objectid rs)))"
    and fd'_cols: "\<forall>f \<in> set found. rs \<noteq> [] \<or> f \<in> set found \<longrightarrow>
            fd' f = Some (VList ((if f \<in> set found then col_of d2 f else [])
                                   @ map (\<lambda>r. NCell (feature_value r magcol f)) rs))"
    by blast
  have step: "collect_all w magcol featurestouse paths fd
                = collect_all w magcol featurestouse ps d2"
    using paths p Cons.prems(3) new_id fs one skip req
    by (simp add: get_list_def Let_def d1_def)
  have col_d1: "\<forall>f \<in> set found. col_of d1 f = col_of fd f"
    using found(2) by (auto simp: d1_def col_of_def)
  have fv: "\<forall>f. feature_value r magcol f = the (fs f)"
    using fs by (simp add: feature_value_def)
  have cols: "\<forall>f \<in> set found.
            fd' f = Some (VList ((if f \<in> set A then col_of fd f else [])
                                   @ map (\<lambda>r. NCell (feature_value r magcol f)) (r # rs)))"
  proof
    fix f assume f: "f \<in> set found"
    from d2_cols f
    have "col_of d2 f = (if f \<in> set A then col_of d1 f else []) @ [NCell (the (fs f))]"
      by (simp add: col_of_def)
    with fd'_cols f col_d1 fv show
      "fd' f = Some (VList ((if f \<in> set A then col_of fd f else [])
                                   @ map (\<lambda>r. NCell (feature_value r magcol f)) (r # rs)))"
      by simp
  qed
  show ?case
    using step rest fd'_av fd'_ids cols by simp
qed

lemma common_type_numbers: "common_type fmt (map (\<lambda>r. NCell (g r)) recs) = map (\<lambda>r. NCell (g r)) recs"
  by (auto simp: common_type_def is_str_def)

lemma common_type_strings: "common_type fmt (map SCell ids) = map SCell ids"
  by (simp add: common_type_def cell_str_def)

lemma to_arrays_numbers:
  assumes "distinct req"
    and "\<forall>f \<in> set req. fd f = Some (VList (map (\<lambda>r. NCell (g r f)) recs))"
  shows "\<exists>d. to_arrays fmt (map SCell req) fd = Inr d
           \<and> (\<forall>f \<in> set req. d f = Some (VArray (map (\<lambda>r. NCell (g r f)) recs)))
           \<and> (\<forall>k. k \<notin> set req \<longrightarrow> d k = fd k)"
  using assms
proof (induction req arbitrary: fd)
  case Nil
  then show ?case by simp
next
  case (Cons f req)
  from Cons.prems have col: "fd f = Some (VList (map (\<lambda>r. NCell (g r f)) recs))" by simp
  define dn where "dn = fd(f \<mapsto> VArray (map (\<lambda>r. NCell (g r f)) recs))"
  have fnr: "f \<notin> set req" and dr: "distinct req" using Cons.prems by auto
  have pre: "\<forall>h \<in> set req. dn h = Some (VList (map (\<lambda>r. NCell (g r h)) recs))"
    using Cons.prems(2) fnr by (auto simp: dn_def)
  from Cons.IH[OF dr pre] obtain d where
    r: "to_arrays fmt (map SCell req) dn = Inr d"
    and c: "\<forall>h \<in> set req. d h = Some (VArray (map (\<lambda>r. NCell (g r h)) recs))"
    and k: "\<forall>k. k \<notin> set req \<longrightarrow> d k = dn k"
    by blast
  have step: "to_arrays fmt (map SCell (f # req)) fd = to_arrays fmt (map SCell req) dn"
    using col by (simp add: np_array_def dn_def common_type_numbers)
  have cf: "d f = Some (VArray (map (\<lambda>r. NCell (g r f)) recs))"
    using k fnr by (simp add: dn_def)
  show ?case
    using step r c k cf by (auto simp: dn_def)
qed

lemma columns_of_requested:
  "\<forall>f \<in> set req. d f = Some (VArray (c f))
     \<Longrightarrow> columns_of d (map SCell req) = Inr (map (\<lambda>f. VArray (c f)) req)"
  by (induction req) auto

lemma array_cells_arrays: "array_cells (map (\<lambda>f. VArray (c f)) req) = Inr (map c req)"
  by (induction req) auto

lemma rows_of_columns:
  "map (\<lambda>i. map (\<lambda>col. col ! i) (map (\<lambda>f. map (\<lambda>r. g r f) recs) req)) [0..<length recs]
     = map (\<lambda>r. map (\<lambda>f. g r f) req) recs"
  by (rule nth_equalityI) (auto simp: comp_def)

lemma column_stack_numbers:
  assumes "req \<noteq> []"
  shows "column_stack fmt (map (\<lambda>f. VArray (map (\<lambda>r. NCell (g r f)) recs)) req)
           = Inr (VMatrix (map (\<lambda>r. map (\<lambda>f. NCell (g r f)) req) recs))"
proof -
  obtain f0 rest where req: "req = f0 # rest" using assms by (cases req) auto
  have ac: "array_cells (map (\<lambda>f. VArray (map (\<lambda>r. NCell (g r f)) recs)) req)
              = Inr (map (\<lambda>f. map (\<lambda>r. NCell (g r f)) recs) req)"
    by (rule array_cells_arrays)
  have no_str: "\<not> (\<exists>c \<in> set (concat (map (\<lambda>f. map (\<lambda>r. NCell (g r f)) recs) req)). is_str c)"
    by (auto simp: is_str_def)
  have "column_stack fmt (map (\<lambda>f. VArray (map (\<lambda>r. NCell (g r f)) recs)) req)
          = Inr (VMatrix (map (\<lambda>i. map (\<lambda>col. col ! i)
                                        (map (\<lambda>f. map (\<lambda>r. NCell (g r f)) recs) req))
                            [0..<length recs]))"
    unfolding column_stack_def ac using no_str by (simp add: req)
  then show ?thesis by (simp only: rows_of_columns)
qed

lemma featurestoget_nonempty: "featurestoget featurestouse \<noteq> []"
  by (simp add: featurestoget_def NONPERIODIC_FEATURES_TO_COLLECT_def split: option.splits)

lemma stack_features_numbers:
  assumes "req \<noteq> []" and "distinct req"
    and "''objectids'' \<notin> set req" and "''availablefeatures'' \<notin> set req"
    and av: "d1 ''availablefeatures'' = Some (VList (map SCell req))"
    and ids: "d1 ''objectids'' = Some (VList (map SCell ids))"
    and cols: "\<forall>f \<in> set req. d1 f = Some (VList (map (\<lambda>r. NCell (g r f)) recs))"
  shows "\<exists>d3. stack_features fmt d1 = Inr d3
           \<and> d3 ''features_array'' = Some (VMatrix (map (\<lambda>r. map (\<lambda>f. NCell (g r f)) req) recs))
           \<and> d3 ''objectids'' = Some (VArray (map SCell ids))
           \<and> d3 ''availablefeatures'' = Some (VList (map SCell req))"
proof -
  from to_arrays_numbers[OF assms(2) cols] obtain da where
    ta: "to_arrays fmt (map SCell req) d1 = Inr da"
    and da_cols: "\<forall>f \<in> set req. da f = Some (VArray (map (\<lambda>r. NCell (g r f)) recs))"
    and da_other: "\<forall>k. k \<notin> set req \<longrightarrow> da k = d1 k"
    by blast
  define d2 where "d2 = da(''objectids'' \<mapsto> VArray (map SCell ids))"
  have da_ids: "da ''objectids'' = Some (VList (map SCell ids))"
    using da_other assms(3) ids by simp
  have d2_av: "d2 ''availablefeatures'' = Some (VList (map SCell req))"
    using da_other assms(4) av by (simp add: d2_def)
  have d2_cols: "\<forall>f \<in> set req. d2 f = Some (VArray (map (\<lambda>r. NCell (g r f)) recs))"
    using da_cols assms(3) by (auto simp: d2_def)
  have co: "columns_of d2 (map SCell req)
              = Inr (map (\<lambda>f. VArray (map (\<lambda>r. NCell (g r f)) recs)) req)"
    using columns_of_requested[OF d2_cols] .
  have cs: "column_stack fmt (map (\<lambda>f. VArray (map (\<lambda>r. NCell (g r f)) recs)) req)
              = Inr (VMatrix (map (\<lambda>r. map (\<lambda>f. NCell (g r f)) req) recs))"
    using column_stack_numbers[OF assms(1)] .
  have "stack_features fmt d1
          = Inr (d2(''features_array'' \<mapsto> VMatrix (map (\<lambda>r. map (\<lambda>f. NCell (g r f)) req) recs)))"
    unfolding stack_features_def
    using av ta da_ids d2_av co cs
    by (simp add: subscript_def iterate_def np_array_def common_type_strings Let_def
          d2_def[symmetric])
  moreover have "(d2(''features_array'' \<mapsto> VMatrix (map (\<lambda>r. map (\<lambda>f. NCell (g r f)) req) recs)))
                   ''objectids'' = Some (VArray (map SCell ids))"
    by (simp add: d2_def)
  moreover have "(d2(''features_array'' \<mapsto> VMatrix (map (\<lambda>r. map (\<lambda>f. NCell (g r f)) req) recs)))
                   ''availablefeatures'' = Some (VList (map SCell req))"
    using d2_av by simp
  ultimately show ?thesis by simp
qed

lemma label_entry_total:
  assumes "\<forall>s i. ld s = Some (LInt i) \<longrightarrow> - (2 ^ 63) \<le> i \<and> i < 2 ^ 63"
  shows "\<exists>l. label_entry ld lt c = Inr l"
  using assms
  by (auto simp: label_entry_def to_int64_def split: cell.splits option.splits labelvalue.splits)

lemma label_loop_total:
  assumes "\<forall>s i. ld s = Some (LInt i) \<longrightarrow> - (2 ^ 63) \<le> i \<and> i < 2 ^ 63"
  shows "\<exists>ls. label_loop ld lt ids = Inr ls"
proof (induction ids)
  case Nil
  then show ?case by simp
next
  case (Cons c ids)
  from label_entry_total[OF assms] obtain l where "label_entry ld lt c = Inr l" by blast
  with Cons show ?case by auto
qed

lemma add_labels_keeps:
  assumes "\<forall>ld s i. labeldict = Some ld \<longrightarrow> ld s = Some (LInt i) \<longrightarrow> - (2 ^ 63) \<le> i \<and> i < 2 ^ 63"
    and "d ''objectids'' = Some (VArray ids)"
  shows "\<exists>d'. add_labels labeldict labeltype d = Inr d'
           \<and> (\<forall>k. k \<noteq> ''labels_array'' \<longrightarrow> d' k = d k)"
proof (cases labeldict)
  case None
  then show ?thesis by (simp add: add_labels_def)
next
  case (Some ld)
  with assms(1) have "\<forall>s i. ld s = Some (LInt i) \<longrightarrow> - (2 ^ 63) \<le> i \<and> i < 2 ^ 63" by simp
  from label_loop_total[OF this] obtain ls where "label_loop ld labeltype ids = Inr ls" by blast
  with Some assms(2) show ?thesis
    by (simp add: add_labels_def subscript_def iterate_def)
qed

text \<open>
  The collection of records that agree on the requested features they hold: \<open>found\<close>
  is the list of those features, in requested order.
\<close>

lemma collect_features_found:
  assumes files: "map (rf_files w)
                    (limit_pklist maxobjects (glob_results w (os_path_join featuresdir pklglob)))
                  = map (\<lambda>r. Some (VarfPickle r)) recs"
    and nonempty: "recs \<noteq> []"
    and requested: "featurestoget featurestouse = map SCell req"
    and exposed: "\<forall>r \<in> set recs. \<exists>fs. vf_magcols r magcol = Some fs
                    \<and> filter (\<lambda>f. fs f \<noteq> None) req = found"
    and found: "found \<noteq> []" "distinct found"
      "''objectids'' \<notin> set found" "''availablefeatures'' \<notin> set found"
    and ids: "distinct (map vf_objectid recs)"
    and storable: "\<forall>ld s i. labeldict = Some ld \<longrightarrow> ld s = Some (LInt i) \<longrightarrow>
                     - (2 ^ 63) \<le> i \<and> i < 2 ^ 63"
    and can_write: "rf_writable w outfile"
  shows "\<exists>fd w'. collect_features w featuresdir magcol outfile pklglob featurestouse maxobjects
                    labeldict labeltype = (Inr fd, w')
           \<and> fd ''features_array''
               = Some (VMatrix (map (\<lambda>r. map (\<lambda>f. NCell (feature_value r magcol f)) found) recs))
           \<and> fd ''objectids'' = Some (VArray (map (\<lambda>r. SCell (vf_objectid r)) recs))
           \<and> fd ''availablefeatures'' = Some (VList (map SCell found))"
proof -
  define pklist where
    "pklist = limit_pklist maxobjects (glob_results w (os_path_join featuresdir pklglob))"
  define w1 where "w1 = rf_log INFO (''collecting features for magcol: '' @ magcol) w"
  define d0 :: pydict where
    "d0 = [''objectids'' \<mapsto> VList [], ''magcol'' \<mapsto> VStr magcol,
           ''availablefeatures'' \<mapsto> VList []]"
  have files1: "map (rf_files w1) pklist = map (\<lambda>r. Some (VarfPickle r)) recs"
    using files by (simp add: pklist_def w1_def)
  have d0_av: "d0 ''availablefeatures'' = Some (VList (map SCell []))" by (simp add: d0_def)
  have d0_ids: "d0 ''objectids'' = Some (VList (map SCell []))" by (simp add: d0_def)
  have d0_cols: "\<forall>f \<in> set found. f \<in> set [] \<longrightarrow> (\<exists>col. d0 f = Some (VList col))" by simp
  have dist0: "distinct ([] @ map vf_objectid recs)" using ids by simp
  from collect_all_found[OF requested found(2,3,4) _ d0_av d0_ids d0_cols files1 exposed dist0]
    nonempty
  obtain d1 where
    loop: "collect_all w1 magcol featurestouse pklist d0 = Inr d1"
    and d1_av: "d1 ''availablefeatures'' = Some (VList (map SCell found))"
    and d1_ids: "d1 ''objectids'' = Some (VList (map SCell (map vf_objectid recs)))"
    and d1_cols: "\<forall>f \<in> set found.
                    d1 f = Some (VList (map (\<lambda>r. NCell (feature_value r magcol f)) recs))"
    by auto
  from stack_features_numbers[OF found d1_av d1_ids d1_cols, of "np_str_float w"]
  obtain d2 where
    stack: "stack_features (np_str_float w) d1 = Inr d2"
    and d2_fa: "d2 ''features_array''
                  = Some (VMatrix (map (\<lambda>r. map (\<lambda>f. NCell (feature_value r magcol f)) found) recs))"
    and d2_ids: "d2 ''objectids'' = Some (VArray (map SCell (map vf_objectid recs)))"
    and d2_av: "d2 ''availablefeatures'' = Some (VList (map SCell found))"
    by blast
  from add_labels_keeps[where d = d2 and labeldict = labeldict and labeltype = labeltype,
      OF storable d2_ids]
  obtain d3 where
    lab: "add_labels labeldict labeltype d2 = Inr d3"
    and d3_same: "\<forall>k. k \<noteq> ''labels_array'' \<longrightarrow> d3 k = d2 k"
    by blast
  define d4 where
    "d4 = d3(''kwargs'' \<mapsto> collect_kwargs pklglob featurestouse maxobjects labeltype)"
  have run: "collect_features w featuresdir magcol outfile pklglob featurestouse maxobjects
               labeldict labeltype
             = (Inr d4, w1\<lparr>rf_files := (rf_files w1)(outfile \<mapsto> Pickle (VDict d4))\<rparr>)"
    unfolding collect_features_def Let_def pklist_def[symmetric] w1_def[symmetric]
      d0_def[symmetric]
    using loop stack lab can_write by (simp add: d4_def w1_def)
  have "d4 ''features_array''
          = Some (VMatrix (map (\<lambda>r. map (\<lambda>f. NCell (feature_value r magcol f)) found) recs))"
    using d2_fa d3_same by (simp add: d4_def)
  moreover have "d4 ''objectids'' = Some (VArray (map (\<lambda>r. SCell (vf_objectid r)) recs))"
    using d2_ids d3_same by (simp add: d4_def comp_def)
  moreover have "d4 ''availablefeatures'' = Some (VList (map SCell found))"
    using d2_av d3_same by (simp add: d4_def)
  ultimately show ?thesis using run by blast
qed

text \<open>
  C5, as stated, fails.  In each case the records expose the same feature set.
  Two requested features of which the records have one give a matrix with one column;
  a feature requested twice gives four rows for two objects; no record at all raises;
  two records of one object give two rows for one object identifier; a feature named
  \<open>objectids\<close> gives three rows for two objects; a feature named
  \<open>availablefeatures\<close> raises.
\<close>

theorem collect_features_shape_counterexample:
  "array_shape (result_entry (collect_features demo_disk ''/feat'' ''aep_000'' ''/out/f.pkl''
      ''varfeatures-*.pkl'' (Some [SCell ''stetsonj'', SCell ''amplitude'']) None None
      ''binary'') ''features_array'') = Some (2, 1)
   \<and> array_shape (result_entry (collect_features demo_disk ''/feat'' ''aep_000'' ''/out/f.pkl''
      ''varfeatures-*.pkl'' (Some [SCell ''mad'', SCell ''mad'']) None None
      ''binary'') ''features_array'') = Some (4, 1)
   \<and> fst (collect_features demo_disk ''/empty'' ''aep_000'' ''/out/f.pkl''
      ''varfeatures-*.pkl'' (Some [SCell ''stetsonj'', SCell ''mad'']) None None
      ''binary'') = Inl ValueError
   \<and> array_shape (result_entry (collect_features demo_disk ''/feat'' ''aep_000'' ''/out/f.pkl''
      ''*-1.pkl'' (Some [SCell ''stetsonj'', SCell ''mad'']) None None
      ''binary'') ''features_array'') = Some (2, 2)
   \<and> array_shape (result_entry (collect_features demo_disk ''/feat'' ''aep_000'' ''/out/f.pkl''
      ''*-1.pkl'' (Some [SCell ''stetsonj'', SCell ''mad'']) None None
      ''binary'') ''objectids'') = Some (1, 1)
   \<and> array_shape (result_entry (collect_features demo_disk ''/odd'' ''aep_000'' ''/out/f.pkl''
      ''varfeatures-*.pkl'' (Some [SCell ''objectids'']) None None
      ''binary'') ''features_array'') = Some (3, 1)
   \<and> fst (collect_features demo_disk ''/odd'' ''aep_000'' ''/out/f.pkl''
      ''varfeatures-*.pkl'' (Some [SCell ''availablefeatures'']) None None
      ''binary'') = Inl KeyError"
  by (simp add: rf_eval_defs)

text \<open>
  C5, amended.  Let the pickles the call reads be the records \<open>recs\<close>, at least one,
  with distinct object identifiers, and let them agree on which of the requested
  features they hold under the magnitude column: the list \<open>found\<close>, in requested
  order, not empty, without repetition and without the names \<open>objectids\<close> and
  \<open>availablefeatures\<close>; let the labels, if any, fit the label array and the output
  file be writable.  Then the call returns, the feature matrix has one row per record
  in the order of the object-identifier array and one column per requested feature the
  records hold, in requested order (one column per requested feature when they hold
  them all), and entry \<open>(i, j)\<close> is the value of the \<open>j\<close>-th such feature in record
  \<open>i\<close>.
\<close>

theorem collect_features_matrix:
  assumes files: "map (rf_files w)
                    (limit_pklist maxobjects (glob_results w (os_path_join featuresdir pklglob)))
                  = map (\<lambda>r. Some (VarfPickle r)) recs"
    and nonempty: "recs \<noteq> []"
    and requested: "featurestoget featurestouse = map SCell req"
    and exposed: "\<forall>r \<in> set recs. \<exists>fs. vf_magcols r magcol = Some fs
                    \<and> filter (\<lambda>f. fs f \<noteq> None) req = found"
    and found: "found \<noteq> []" "distinct found"
      "''objectids'' \<notin> set found" "''availablefeatures'' \<notin> set found"
    and ids: "distinct (map vf_objectid recs)"
    and storable: "\<forall>ld s i. labeldict = Some ld \<longrightarrow> ld s = Some (LInt i) \<longrightarrow>
                     - (2 ^ 63) \<le> i \<and> i < 2 ^ 63"
    and can_write: "rf_writable w outfile"
  shows "\<exists>fd w'. collect_features w featuresdir magcol outfile pklglob featurestouse maxobjects
                    labeldict labeltype = (Inr fd, w')
           \<and> fd ''features_array''
               = Some (VMatrix (map (\<lambda>r. map (\<lambda>f. NCell (feature_value r magcol f)) found) recs))
           \<and> fd ''objectids'' = Some (VArray (map (\<lambda>r. SCell (vf_objectid r)) recs))
           \<and> fd ''availablefeatures'' = Some (VList (map SCell found))"
  by (rule collect_features_found[OF files nonempty requested exposed found ids storable
        can_write])

theorem collect_features_matrix_witness:
  "\<exists>fd w'. collect_features demo_disk ''/feat'' ''aep_000'' ''/out/f.pkl''
      ''varfeatures-*.pkl'' (Some [SCell ''stetsonj'', SCell ''amplitude'', SCell ''mad'']) None
      (Some demo_classdict) ''classes'' = (Inr fd, w')
   \<and> fd ''features_array'' = Some (VMatrix [[NCell 1, NCell 2], [NCell 3, NCell 4]])
   \<and> fd ''objectids'' = Some (VArray [SCell ''HAT-1'', SCell ''HAT-2''])
   \<and> fd ''availablefeatures'' = Some (VList [SCell ''stetsonj'', SCell ''mad''])"
proof -
  have files: "map (rf_files demo_disk)
                 (limit_pklist None
                    (glob_results demo_disk (os_path_join ''/feat'' ''varfeatures-*.pkl'')))
               = map (\<lambda>r. Some (VarfPickle r)) [demo_varf ''HAT-1'' 1 2, demo_varf ''HAT-2'' 3 4]"
    by (simp add: demo_disk_def limit_pklist_def os_path_join_def)
  have requested: "featurestoget (Some [SCell ''stetsonj'', SCell ''amplitude'', SCell ''mad''])
                     = map SCell [''stetsonj'', ''amplitude'', ''mad'']"
    by (simp add: featurestoget_def)
  have exposed: "\<forall>r \<in> set [demo_varf ''HAT-1'' 1 2, demo_varf ''HAT-2'' 3 4].
                   \<exists>fs. vf_magcols r ''aep_000'' = Some fs
                      \<and> filter (\<lambda>f. fs f \<noteq> None) [''stetsonj'', ''amplitude'', ''mad'']
                          = [''stetsonj'', ''mad'']"
    by (simp add: demo_varf_def)
  have storable: "\<forall>ld s i. Some demo_classdict = Some ld \<longrightarrow> ld s = Some (LInt i) \<longrightarrow>
                    - (2 ^ 63) \<le> i \<and> i < 2 ^ 63"
    by (auto simp: demo_classdict_def split: if_splits)
  have "\<exists>fd w'. collect_features demo_disk ''/feat'' ''aep_000'' ''/out/f.pkl''
      ''varfeatures-*.pkl'' (Some [SCell ''stetsonj'', SCell ''amplitude'', SCell ''mad'']) None
      (Some demo_classdict) ''classes'' = (Inr fd, w')
   \<and> fd ''features_array''
       = Some (VMatrix (map (\<lambda>r. map (\<lambda>f. NCell (feature_value r ''aep_000'' f))
                                    [''stetsonj'', ''mad''])
                          [demo_varf ''HAT-1'' 1 2, demo_varf ''HAT-2'' 3 4]))
   \<and> fd ''objectids''
       = Some (VArray (map (\<lambda>r. SCell (vf_objectid r))
                         [demo_varf ''HAT-1'' 1 2, demo_varf ''HAT-2'' 3 4]))
   \<and> fd ''availablefeatures'' = Some (VList (map SCell [''stetsonj'', ''mad'']))"
    by (rule collect_features_matrix[OF files _ requested exposed _ _ _ _ _ storable])
       (simp_all add: demo_varf_def demo_disk_def)
  then show ?thesis
    by (simp add: feature_value_def demo_varf_def)
qed

subsection \<open>\<open>maxobjects\<close>\<close>


text \<open>
  With \<open>maxobjects=0\<close> the call collects what the call without \<open>maxobjects\<close>
  collects: the two results agree on every entry except \<open>'kwargs'\<close>, which records the
  argument itself.
\<close>

lemma collect_features_maxobjects_zero_as_none:
  "map_sum id (\<lambda>fd. fd |` (- {''kwargs''}))
        (fst (collect_features w featuresdir magcol outfile pklglob featurestouse (Some 0)
                labeldict labeltype))
     = map_sum id (\<lambda>fd. fd |` (- {''kwargs''}))
        (fst (collect_features w featuresdir magcol outfile pklglob featurestouse None
                labeldict labeltype))"
  by (simp add: collect_features_def limit_pklist_def Let_def restrict_complement_singleton_eq
           split: sum.splits)




end
